theory Spec2Isabelle
  imports
    Complex_Main
    "HOL-Library.Char_ord"
    "HOL-Library.List_Lexorder"
    "HOL-Library.Product_Lexorder"
begin

section \<open>Sprint analysis: data model\<close>

text \<open>
  The Python code works on pandas frames. A frame is modelled by the list of its column
  names together with its rows; a row is a record holding one field per column the code
  reads. Reading a column that the frame does not have raises \<open>KeyError\<close> in pandas,
  so every column read of the source is a check against \<open>columns\<close> in the model, and
  the field of a row is only looked at after that check. A missing value (NaN or None)
  of a text column is \<open>None\<close>. Numbers are reals: the tag flags and the numeric
  columns of a work item are the values left by the tag detection and the numeric
  coercion of \<open>process_azure_data\<close>.
\<close>

datatype py_error = KeyError string | ZeroDivisionError

record 'a frame =
  columns :: "string list"
  rows :: "'a list"

record work_item =
  assigned_to :: "string option"
  activity :: "string option"
  state :: "string option"
  original_estimate :: real
  completed_work :: real
  remaining_work :: real
  staff_email :: "string option"
  staff_name :: "string option"
  team :: "string option"
  has_midsprint_addition :: bool
  has_adhoc :: bool
  is_done :: bool

record staff_aggregate =
  sa_staff_email :: string
  sa_staff_name :: string
  sa_team :: string
  sa_original_estimate_total :: real
  sa_completed_work_total :: real
  sa_remaining_work_total :: real
  sa_done_count :: int
  sa_total_count :: int
  sa_midsprint_count :: int
  sa_adhoc_count :: int

record team_aggregate =
  ta_team :: string
  ta_original_estimate_total :: real
  ta_completed_work_total :: real
  ta_remaining_work_total :: real
  ta_done_count :: int
  ta_total_count :: int
  ta_midsprint_count :: int
  ta_adhoc_count :: int

record capacity_entry =
  staff_member :: string
  cap_team :: "string option"
  remaining_capacity :: real

text \<open>
  One row of a metrics table. The staff table has the columns \<open>staff_name\<close> and
  \<open>staff_email\<close>, the team table has not: there the two fields are \<open>None\<close>.
\<close>

record metrics_row =
  m_staff_name :: "string option"
  m_staff_email :: "string option"
  m_team :: string
  m_original_estimate :: real
  m_completed_work :: real
  m_remaining_work :: real
  m_capacity :: real
  m_done_count :: int
  m_total_count :: int
  performance_rate :: real
  utilization :: real
  done_tasks_pct :: real
  midsprint_addition_pct :: real
  adhoc_pct :: real
  kpi :: real

record kpi_weights =
  w_performance_rate :: real
  w_utilization :: real
  w_done_tasks :: real

section \<open>SprintCalculator: the ratios and the composite KPI\<close>

text \<open>Python's \<open>/\<close> raises \<open>ZeroDivisionError\<close> on a zero divisor.\<close>

definition py_truediv :: "real \<Rightarrow> real \<Rightarrow> py_error + real" where
  "py_truediv a b = (if b = 0 then Inl ZeroDivisionError else Inr (a / b))"

definition default_kpi_weights :: kpi_weights where
  "default_kpi_weights =
     \<lparr>w_performance_rate = 2 / 10, w_utilization = 1 / 10, w_done_tasks = 7 / 10\<rparr>"

text \<open>\<open>__init__\<close>: \<open>self.kpi_weights = kpi_weights or {...}\<close>.\<close>

definition SprintCalculator :: "kpi_weights option \<Rightarrow> kpi_weights" where
  "SprintCalculator kw = (case kw of None \<Rightarrow> default_kpi_weights | Some w \<Rightarrow> w)"

definition calculate_performance_rate :: "real \<Rightarrow> real \<Rightarrow> real \<Rightarrow> py_error + real" where
  "calculate_performance_rate original_est completed remaining =
     (let denominator = completed + remaining
      in if denominator = 0 then Inr 0 else py_truediv original_est denominator)"

definition calculate_utilization :: "real \<Rightarrow> real \<Rightarrow> py_error + real" where
  "calculate_utilization completed capacity =
     (if capacity = 0 then Inr 0 else py_truediv completed capacity)"

definition calculate_done_tasks_percentage :: "int \<Rightarrow> int \<Rightarrow> py_error + real" where
  "calculate_done_tasks_percentage done_count total_count =
     (if total_count = 0 then Inr 0
      else py_truediv (real_of_int done_count) (real_of_int total_count))"

definition calculate_midsprint_addition_percentage :: "real \<Rightarrow> real \<Rightarrow> py_error + real" where
  "calculate_midsprint_addition_percentage midsprint_work total_work =
     (if total_work = 0 then Inr 0 else py_truediv midsprint_work total_work)"

definition calculate_adhoc_percentage :: "real \<Rightarrow> real \<Rightarrow> py_error + real" where
  "calculate_adhoc_percentage adhoc_work total_work =
     (if total_work = 0 then Inr 0 else py_truediv adhoc_work total_work)"

definition calculate_kpi :: "kpi_weights \<Rightarrow> real \<Rightarrow> real \<Rightarrow> real \<Rightarrow> real" where
  "calculate_kpi self perf util done_pct =
     perf * w_performance_rate self + util * w_utilization self + done_pct * w_done_tasks self"

section \<open>SprintDataProcessor: normalisation of the rows\<close>

text \<open>
  The two regular expressions of \<open>process_azure_data\<close>, matched the way
  \<open>re.search\<close> does. A dot matches every character but the newline, \<open>\s\<close> matches
  white space, and the lazy \<open>.+?\<close> takes one character and then one more at a time
  until the rest of the pattern matches.
\<close>

definition newline :: char where
  "newline = CHR 0x0A"

definition is_space :: "char \<Rightarrow> bool" where
  "is_space c \<longleftrightarrow> c \<in> set [CHR 0x09, CHR 0x0A, CHR 0x0B, CHR 0x0C, CHR 0x0D,
     CHR 0x1C, CHR 0x1D, CHR 0x1E, CHR 0x1F, CHR 0x20, CHR 0x85, CHR 0xA0]"

text \<open>
  \<open><(.+?)>\<close> once the \<open><\<close> and the first character of the group are read:
  \<open>acc\<close> is the group so far.
\<close>

fun lazy_until_gt :: "string \<Rightarrow> string \<Rightarrow> string option" where
  "lazy_until_gt acc [] = None"
| "lazy_until_gt acc (c # cs) =
     (if c = CHR ''>'' then Some acc
      else if c = newline then None
      else lazy_until_gt (acc @ [c]) cs)"

definition email_group :: "string \<Rightarrow> string option" where
  "email_group cs =
     (case cs of [] \<Rightarrow> None
      | d # ds \<Rightarrow> if d = newline then None else lazy_until_gt [d] ds)"

text \<open>\<open>re.search(r'<(.+?)>', s)\<close>: the leftmost start at which the pattern matches.\<close>

fun search_email :: "string \<Rightarrow> string option" where
  "search_email [] = None"
| "search_email (c # cs) =
     (if c = CHR ''<''
      then (case email_group cs of Some e \<Rightarrow> Some e | None \<Rightarrow> search_email cs)
      else search_email cs)"

text \<open>\<open>\s*<\<close> matches at the head of the string.\<close>

fun ws_then_lt :: "string \<Rightarrow> bool" where
  "ws_then_lt [] = False"
| "ws_then_lt (c # cs) = (c = CHR ''<'' \<or> (is_space c \<and> ws_then_lt cs))"

text \<open>\<open>^(.+?)\s*<\<close> once the first character of the group is read.\<close>

fun lazy_name :: "string \<Rightarrow> string \<Rightarrow> string option" where
  "lazy_name acc [] = None"
| "lazy_name acc (c # cs) =
     (if ws_then_lt (c # cs) then Some acc
      else if c = newline then None
      else lazy_name (acc @ [c]) cs)"

definition search_name :: "string \<Rightarrow> string option" where
  "search_name s =
     (case s of [] \<Rightarrow> None
      | c # cs \<Rightarrow> if c = newline then None else lazy_name [c] cs)"

text \<open>\<open>Series.str.extract(pat)[0]\<close>: a missing value stays missing.\<close>

definition extract_email :: "string option \<Rightarrow> string option" where
  "extract_email a = (case a of None \<Rightarrow> None | Some s \<Rightarrow> search_email s)"

definition extract_name :: "string option \<Rightarrow> string option" where
  "extract_name a = (case a of None \<Rightarrow> None | Some s \<Rightarrow> search_name s)"

text \<open>\<open>self.team_mapping\<close> and \<open>Series.map\<close> of it: an activity that is no key is missing.\<close>

definition team_mapping :: "(string \<times> string) list" where
  "team_mapping =
     [(''Development'', ''Development''),
      (''Front End'', ''Frontend''),
      (''Design'', ''Design''),
      (''Testing'', ''Testing''),
      (''Business'', ''Business'')]"

definition map_team :: "string option \<Rightarrow> string option" where
  "map_team a = (case a of None \<Rightarrow> None | Some s \<Rightarrow> map_of team_mapping s)"

definition state_is_done :: "string option \<Rightarrow> bool" where
  "state_is_done st = (case st of None \<Rightarrow> False | Some s \<Rightarrow> s \<in> set [''Done'', ''Closed''])"

definition process_row :: "work_item \<Rightarrow> work_item" where
  "process_row r =
     r\<lparr>staff_email := extract_email (assigned_to r),
       staff_name := extract_name (assigned_to r),
       team := map_team (activity r),
       is_done := state_is_done (state r)\<rparr>"

text \<open>
  \<open>df[c] = ...\<close> adds the column \<open>c\<close> at the end when the frame does not have it.
\<close>

definition add_column :: "string \<Rightarrow> string list \<Rightarrow> string list" where
  "add_column c cols = (if c \<in> set cols then cols else cols @ [c])"

text \<open>
  \<open>process_azure_data\<close>, after the column names are stripped. The columns
  \<open>Assigned To\<close>, \<open>Activity\<close>, \<open>Tags\<close> and \<open>State\<close> are read in this order.
\<close>

definition process_azure_data :: "work_item frame \<Rightarrow> py_error + work_item frame" where
  "process_azure_data df =
     (if ''Assigned To'' \<notin> set (columns df) then Inl (KeyError ''Assigned To'')
      else if ''Activity'' \<notin> set (columns df) then Inl (KeyError ''Activity'')
      else if ''Tags'' \<notin> set (columns df) then Inl (KeyError ''Tags'')
      else if ''State'' \<notin> set (columns df) then Inl (KeyError ''State'')
      else Inr \<lparr>columns =
                  add_column ''is_done'' (add_column ''has_adhoc''
                    (add_column ''has_midsprint_addition'' (add_column ''team''
                      (add_column ''staff_name'' (add_column ''staff_email'' (columns df)))))),
                rows = map process_row (rows df)\<rparr>)"

section \<open>SprintDataProcessor: aggregation\<close>

text \<open>
  \<open>DataFrame.groupby(keys)\<close> with its defaults: a row with a missing value in a key
  column is in no group, the groups come in the sorted order of their keys, and the rows
  of a group keep the order of the frame. \<open>key\<close> gives the key of a row, \<open>None\<close>
  when a component of it is missing.
\<close>

definition groupby :: "('a \<Rightarrow> 'k::linorder option) \<Rightarrow> 'a list \<Rightarrow> ('k \<times> 'a list) list" where
  "groupby key xs =
     map (\<lambda>k. (k, filter (\<lambda>x. key x = Some k) xs)) (sort (remdups (List.map_filter key xs)))"

definition staff_key :: "work_item \<Rightarrow> (string \<times> string \<times> string) option" where
  "staff_key r =
     (case staff_email r of None \<Rightarrow> None
      | Some e \<Rightarrow> (case staff_name r of None \<Rightarrow> None
         | Some n \<Rightarrow> (case team r of None \<Rightarrow> None | Some t \<Rightarrow> Some (e, n, t))))"

definition team_key :: "work_item \<Rightarrow> string option" where
  "team_key r = team r"

text \<open>A column read: \<open>KeyError\<close> when the frame has no such column.\<close>

definition require_column :: "string list \<Rightarrow> string \<Rightarrow> py_error + unit" where
  "require_column cols c = (if c \<in> set cols then Inr () else Inl (KeyError c))"

fun require_columns :: "string list \<Rightarrow> string list \<Rightarrow> py_error + unit" where
  "require_columns cols [] = Inr ()"
| "require_columns cols (c # cs) =
     (if c \<in> set cols then require_columns cols cs else Inl (KeyError c))"

definition bind_err :: "py_error + 'a \<Rightarrow> ('a \<Rightarrow> py_error + 'b) \<Rightarrow> py_error + 'b" where
  "bind_err m f = (case m of Inl e \<Rightarrow> Inl e | Inr x \<Rightarrow> f x)"

text \<open>The columns that \<open>.agg({...})\<close> reduces, in the order of the dictionary.\<close>

definition agg_columns :: "string list" where
  "agg_columns = [''Original Estimate'', ''Completed Work'', ''Remaining Work'',
     ''is_done'', ''has_midsprint_addition'', ''has_adhoc'']"

definition staff_agg_row :: "(string \<times> string \<times> string) \<times> work_item list \<Rightarrow> staff_aggregate" where
  "staff_agg_row g =
     (case g of ((e, n, t), rs) \<Rightarrow>
        \<lparr>sa_staff_email = e, sa_staff_name = n, sa_team = t,
         sa_original_estimate_total = sum_list (map original_estimate rs),
         sa_completed_work_total = sum_list (map completed_work rs),
         sa_remaining_work_total = sum_list (map remaining_work rs),
         sa_done_count = int (length (filter is_done rs)),
         sa_total_count = int (length rs),
         sa_midsprint_count = int (length (filter has_midsprint_addition rs)),
         sa_adhoc_count = int (length (filter has_adhoc rs))\<rparr>)"

definition team_agg_row :: "string \<times> work_item list \<Rightarrow> team_aggregate" where
  "team_agg_row g =
     (case g of (t, rs) \<Rightarrow>
        \<lparr>ta_team = t,
         ta_original_estimate_total = sum_list (map original_estimate rs),
         ta_completed_work_total = sum_list (map completed_work rs),
         ta_remaining_work_total = sum_list (map remaining_work rs),
         ta_done_count = int (length (filter is_done rs)),
         ta_total_count = int (length rs),
         ta_midsprint_count = int (length (filter has_midsprint_addition rs)),
         ta_adhoc_count = int (length (filter has_adhoc rs))\<rparr>)"

text \<open>
  The result of an aggregation always has the ten (eight) columns the source names, so
  it is the list of its rows.
\<close>

definition aggregate_by_staff :: "work_item frame \<Rightarrow> py_error + staff_aggregate list" where
  "aggregate_by_staff df =
     bind_err (require_columns (columns df) ([''staff_email'', ''staff_name'', ''team''] @ agg_columns))
       (\<lambda>_. Inr (map staff_agg_row (groupby staff_key (rows df))))"

definition aggregate_by_team :: "work_item frame \<Rightarrow> py_error + team_aggregate list" where
  "aggregate_by_team df =
     bind_err (require_columns (columns df) ([''team''] @ agg_columns))
       (\<lambda>_. Inr (map team_agg_row (groupby team_key (rows df))))"

section \<open>SprintDataProcessor: validation of the data\<close>

datatype report_status = Success | Warning | Error

datatype data_issue =
    missing_columns "string list"
  | missing_assignments nat
  | unmapped_activities "string option list"
  | incomplete_tasks_with_work nat

record validation_results =
  status :: report_status
  errors :: "data_issue list"
  warnings :: "data_issue list"

definition required_cols :: "string list" where
  "required_cols = [''Work Item Type'', ''Title'', ''State'', ''Assigned To'',
     ''Original Estimate'', ''Completed Work'', ''Activity'']"

text \<open>\<open>Series.unique()\<close>: the distinct values in the order of their first occurrence.\<close>

definition unique :: "'a list \<Rightarrow> 'a list" where
  "unique xs = rev (remdups (rev xs))"

definition validate_data :: "work_item frame \<Rightarrow> py_error + validation_results" where
  "validate_data df =
     (let missing_cols = filter (\<lambda>c. c \<notin> set (columns df)) required_cols;
          st = (if missing_cols \<noteq> [] then Error else Success);
          errs = (if missing_cols \<noteq> [] then [missing_columns missing_cols] else [])
      in bind_err (require_column (columns df) ''Assigned To'') (\<lambda>_.
         let unassigned = filter (\<lambda>r. assigned_to r = None) (rows df);
             w1 = (if unassigned \<noteq> [] then [missing_assignments (length unassigned)] else [])
         in bind_err (require_column (columns df) ''team'') (\<lambda>_.
         let unmapped = filter (\<lambda>r. team r = None) (rows df)
         in bind_err (if length unmapped > 0
                      then bind_err (require_column (columns df) ''Activity'')
                             (\<lambda>_. Inr [unmapped_activities (unique (map activity unmapped))])
                      else Inr []) (\<lambda>w2.
         bind_err (require_column (columns df) ''Completed Work'') (\<lambda>_.
         bind_err (require_column (columns df) ''is_done'') (\<lambda>_.
         let incomplete_with_work = filter (\<lambda>r. completed_work r > 0 \<and> \<not> is_done r) (rows df);
             w3 = (if length incomplete_with_work > 0
                   then [incomplete_tasks_with_work (length incomplete_with_work)] else [])
         in Inr \<lparr>status = st, errors = errs, warnings = w1 @ w2 @ w3\<rparr>))))))"

section \<open>SprintCalculator: the metric tables\<close>

text \<open>\<open>pd.DataFrame(results)\<close> of a list of dictionaries: no row, no column.\<close>

definition DataFrame :: "string list \<Rightarrow> 'a list \<Rightarrow> 'a frame" where
  "DataFrame cols results = \<lparr>columns = (if results = [] then [] else cols), rows = results\<rparr>"

text \<open>The loop \<open>for ... : results.append(...)\<close>: the first error ends it.\<close>

fun for_each :: "('a \<Rightarrow> py_error + 'b) \<Rightarrow> 'a list \<Rightarrow> py_error + 'b list" where
  "for_each f [] = Inr []"
| "for_each f (x # xs) =
     bind_err (f x) (\<lambda>y. bind_err (for_each f xs) (\<lambda>ys. Inr (y # ys)))"

definition staff_metrics_columns :: "string list" where
  "staff_metrics_columns = [''staff_name'', ''staff_email'', ''team'', ''original_estimate'',
     ''completed_work'', ''remaining_work'', ''capacity'', ''done_count'', ''total_count'',
     ''performance_rate'', ''utilization'', ''done_tasks_pct'', ''midsprint_addition_pct'',
     ''adhoc_pct'', ''kpi'']"

definition team_metrics_columns :: "string list" where
  "team_metrics_columns = [''team'', ''original_estimate'',
     ''completed_work'', ''remaining_work'', ''capacity'', ''done_count'', ''total_count'',
     ''performance_rate'', ''utilization'', ''done_tasks_pct'', ''midsprint_addition_pct'',
     ''adhoc_pct'', ''kpi'']"

text \<open>The capacity of a staff member: the first matching row, 63 when there is none.\<close>

definition staff_capacity :: "capacity_entry frame \<Rightarrow> staff_aggregate \<Rightarrow> py_error + real" where
  "staff_capacity capacity_data staff =
     bind_err (require_column (columns capacity_data) ''staff_member'') (\<lambda>_.
       case filter (\<lambda>c. staff_member c = sa_staff_name staff @ '' <'' @ sa_staff_email staff @ ''>'')
              (rows capacity_data) of
         [] \<Rightarrow> Inr 63
       | c # _ \<Rightarrow> bind_err (require_column (columns capacity_data) ''remaining_capacity'')
                    (\<lambda>_. Inr (remaining_capacity c)))"

text \<open>
  \<open>tasks[tasks[flag]]['Completed Work'].sum()\<close>: the flag column is read first, then
  the work column.
\<close>

definition tagged_work :: "string list \<Rightarrow> string \<Rightarrow> (work_item \<Rightarrow> bool) \<Rightarrow> work_item list \<Rightarrow> py_error + real" where
  "tagged_work cols flag_col flag tasks =
     bind_err (require_column cols flag_col) (\<lambda>_.
     bind_err (require_column cols ''Completed Work'') (\<lambda>_.
       Inr (sum_list (map completed_work (filter flag tasks)))))"

definition staff_metrics_row ::
  "kpi_weights \<Rightarrow> capacity_entry frame \<Rightarrow> work_item frame \<Rightarrow> staff_aggregate \<Rightarrow> py_error + metrics_row" where
  "staff_metrics_row self capacity_data azure_data staff =
     bind_err (staff_capacity capacity_data staff) (\<lambda>capacity.
     bind_err (require_column (columns azure_data) ''staff_email'') (\<lambda>_.
     let staff_tasks = filter (\<lambda>r. staff_email r = Some (sa_staff_email staff)) (rows azure_data)
     in bind_err (tagged_work (columns azure_data) ''has_midsprint_addition''
                    has_midsprint_addition staff_tasks) (\<lambda>midsprint_work.
        bind_err (tagged_work (columns azure_data) ''has_adhoc'' has_adhoc staff_tasks) (\<lambda>adhoc_work.
        bind_err (calculate_performance_rate (sa_original_estimate_total staff)
                    (sa_completed_work_total staff) (sa_remaining_work_total staff)) (\<lambda>perf.
        bind_err (calculate_utilization (sa_completed_work_total staff) capacity) (\<lambda>util.
        bind_err (calculate_done_tasks_percentage (sa_done_count staff) (sa_total_count staff)) (\<lambda>done_pct.
        bind_err (calculate_midsprint_addition_percentage midsprint_work
                    (sa_completed_work_total staff)) (\<lambda>midsprint_pct.
        bind_err (calculate_adhoc_percentage adhoc_work (sa_completed_work_total staff)) (\<lambda>adhoc_p.
        Inr \<lparr>m_staff_name = Some (sa_staff_name staff),
             m_staff_email = Some (sa_staff_email staff),
             m_team = sa_team staff,
             m_original_estimate = sa_original_estimate_total staff,
             m_completed_work = sa_completed_work_total staff,
             m_remaining_work = sa_remaining_work_total staff,
             m_capacity = capacity,
             m_done_count = sa_done_count staff,
             m_total_count = sa_total_count staff,
             performance_rate = perf,
             utilization = util,
             done_tasks_pct = done_pct,
             midsprint_addition_pct = midsprint_pct,
             adhoc_pct = adhoc_p,
             kpi = calculate_kpi self perf util done_pct\<rparr>)))))))))"

definition calculate_staff_metrics ::
  "kpi_weights \<Rightarrow> staff_aggregate list \<Rightarrow> capacity_entry frame \<Rightarrow> work_item frame
     \<Rightarrow> py_error + metrics_row frame" where
  "calculate_staff_metrics self staff_agg capacity_data azure_data =
     bind_err (for_each (staff_metrics_row self capacity_data azure_data) staff_agg)
       (\<lambda>results. Inr (DataFrame staff_metrics_columns results))"

text \<open>The capacity of a team: the sum over the capacity rows of that team.\<close>

definition team_capacity :: "capacity_entry frame \<Rightarrow> team_aggregate \<Rightarrow> py_error + real" where
  "team_capacity capacity_data tm =
     bind_err (require_column (columns capacity_data) ''team'') (\<lambda>_.
     bind_err (require_column (columns capacity_data) ''remaining_capacity'') (\<lambda>_.
       Inr (sum_list (map remaining_capacity
              (filter (\<lambda>c. cap_team c = Some (ta_team tm)) (rows capacity_data))))))"

definition team_metrics_row ::
  "kpi_weights \<Rightarrow> capacity_entry frame \<Rightarrow> work_item frame \<Rightarrow> team_aggregate \<Rightarrow> py_error + metrics_row" where
  "team_metrics_row self capacity_data azure_data tm =
     bind_err (team_capacity capacity_data tm) (\<lambda>capacity.
     bind_err (require_column (columns azure_data) ''team'') (\<lambda>_.
     let team_tasks = filter (\<lambda>r. team r = Some (ta_team tm)) (rows azure_data)
     in bind_err (tagged_work (columns azure_data) ''has_midsprint_addition''
                    has_midsprint_addition team_tasks) (\<lambda>midsprint_work.
        bind_err (tagged_work (columns azure_data) ''has_adhoc'' has_adhoc team_tasks) (\<lambda>adhoc_work.
        bind_err (calculate_performance_rate (ta_original_estimate_total tm)
                    (ta_completed_work_total tm) (ta_remaining_work_total tm)) (\<lambda>perf.
        bind_err (calculate_utilization (ta_completed_work_total tm) capacity) (\<lambda>util.
        bind_err (calculate_done_tasks_percentage (ta_done_count tm) (ta_total_count tm)) (\<lambda>done_pct.
        bind_err (calculate_midsprint_addition_percentage midsprint_work
                    (ta_completed_work_total tm)) (\<lambda>midsprint_pct.
        bind_err (calculate_adhoc_percentage adhoc_work (ta_completed_work_total tm)) (\<lambda>adhoc_p.
        Inr \<lparr>m_staff_name = None,
             m_staff_email = None,
             m_team = ta_team tm,
             m_original_estimate = ta_original_estimate_total tm,
             m_completed_work = ta_completed_work_total tm,
             m_remaining_work = ta_remaining_work_total tm,
             m_capacity = capacity,
             m_done_count = ta_done_count tm,
             m_total_count = ta_total_count tm,
             performance_rate = perf,
             utilization = util,
             done_tasks_pct = done_pct,
             midsprint_addition_pct = midsprint_pct,
             adhoc_pct = adhoc_p,
             kpi = calculate_kpi self perf util done_pct\<rparr>)))))))))"

definition calculate_team_metrics ::
  "kpi_weights \<Rightarrow> team_aggregate list \<Rightarrow> capacity_entry frame \<Rightarrow> work_item frame
     \<Rightarrow> py_error + metrics_row frame" where
  "calculate_team_metrics self team_agg capacity_data azure_data =
     bind_err (for_each (team_metrics_row self capacity_data azure_data) team_agg)
       (\<lambda>results. Inr (DataFrame team_metrics_columns results))"

section \<open>SprintCalculator: validation of the metrics\<close>

datatype warning_type = high_utilization | low_performance_rate | kpi_outlier

record metric_warning =
  w_type :: warning_type
  w_staff :: "string option"
  w_value :: real

record metrics_validation =
  mv_status :: report_status
  mv_warnings :: "metric_warning list"

text \<open>\<open>row.get('staff_name', row.get('team'))\<close>: no column, no value.\<close>

definition row_label :: "string list \<Rightarrow> metrics_row \<Rightarrow> string option" where
  "row_label cols r =
     (if ''staff_name'' \<in> set cols then m_staff_name r
      else if ''team'' \<in> set cols then Some (m_team r) else None)"

definition validate_metrics :: "metrics_row frame \<Rightarrow> py_error + metrics_validation" where
  "validate_metrics metrics =
     bind_err (require_column (columns metrics) ''utilization'') (\<lambda>_.
     let high_util = filter (\<lambda>r. utilization r > 15 / 10) (rows metrics);
         w1 = map (\<lambda>r. \<lparr>w_type = high_utilization, w_staff = row_label (columns metrics) r,
                         w_value = utilization r\<rparr>) high_util
     in bind_err (require_column (columns metrics) ''performance_rate'') (\<lambda>_.
     let low_perf = filter (\<lambda>r. performance_rate r < 5 / 10) (rows metrics);
         w2 = map (\<lambda>r. \<lparr>w_type = low_performance_rate, w_staff = row_label (columns metrics) r,
                         w_value = performance_rate r\<rparr>) low_perf
     in bind_err (require_column (columns metrics) ''kpi'') (\<lambda>_.
     let kpi_outliers = filter (\<lambda>r. kpi r < 3 / 10 \<or> kpi r > 15 / 10) (rows metrics);
         w3 = map (\<lambda>r. \<lparr>w_type = kpi_outlier, w_staff = row_label (columns metrics) r,
                         w_value = kpi r\<rparr>) kpi_outliers;
         ws = w1 @ w2 @ w3
     in Inr \<lparr>mv_status = (if ws \<noteq> [] then Warning else Success), mv_warnings = ws\<rparr>)))"

section \<open>Concrete inputs\<close>

text \<open>The example of \<open>main()\<close> in the calculator module.\<close>

definition scenario_staff_agg :: "staff_aggregate list" where
  "scenario_staff_agg =
     [\<lparr>sa_staff_email = ''atalaat@youxel.com'', sa_staff_name = ''Ahmed Talaat'',
       sa_team = ''Development'', sa_original_estimate_total = 89,
       sa_completed_work_total = 64, sa_remaining_work_total = 1, sa_done_count = 10,
       sa_total_count = 10, sa_midsprint_count = 0, sa_adhoc_count = 1\<rparr>]"

definition scenario_capacity :: "capacity_entry frame" where
  "scenario_capacity =
     \<lparr>columns = [''staff_member'', ''team'', ''remaining_capacity''],
      rows = [\<lparr>staff_member = ''Ahmed Talaat <atalaat@youxel.com>'',
               cap_team = Some ''Development'', remaining_capacity = 63\<rparr>]\<rparr>"

definition scenario_azure :: "work_item frame" where
  "scenario_azure =
     \<lparr>columns = [''staff_email'', ''Completed Work'', ''has_midsprint_addition'',
                 ''has_adhoc'', ''team''],
      rows = [\<lparr>assigned_to = None, activity = None, state = None, original_estimate = 0,
               completed_work = 64, remaining_work = 0,
               staff_email = Some ''atalaat@youxel.com'', staff_name = None,
               team = Some ''Development'', has_midsprint_addition = False,
               has_adhoc = True, is_done = False\<rparr>]\<rparr>"

definition scenario_row :: metrics_row where
  "scenario_row =
     \<lparr>m_staff_name = Some ''Ahmed Talaat'', m_staff_email = Some ''atalaat@youxel.com'',
      m_team = ''Development'', m_original_estimate = 89, m_completed_work = 64,
      m_remaining_work = 1, m_capacity = 63, m_done_count = 10, m_total_count = 10,
      performance_rate = 89 / 65, utilization = 64 / 63, done_tasks_pct = 1,
      midsprint_addition_pct = 0, adhoc_pct = 1,
      kpi = 2 / 10 * (89 / 65) + 1 / 10 * (64 / 63) + 7 / 10 * 1\<rparr>"

text \<open>Equal when rounded to four decimal places.\<close>

definition approx4 :: "real \<Rightarrow> real \<Rightarrow> bool" where
  "approx4 x y \<longleftrightarrow> \<bar>x - y\<bar> \<le> 5 / 100000"

text \<open>Frames of work items: as read from the sheet, and as processed.\<close>

definition raw_columns :: "string list" where
  "raw_columns = [''Work Item Type'', ''Title'', ''State'', ''Assigned To'',
     ''Original Estimate'', ''Completed Work'', ''Remaining Work'', ''Activity'', ''Tags'']"

definition processed_columns :: "string list" where
  "processed_columns = raw_columns @ [''staff_email'', ''staff_name'', ''team'',
     ''has_midsprint_addition'', ''has_adhoc'', ''is_done'']"

definition raw_item ::
  "string option \<Rightarrow> string option \<Rightarrow> string option \<Rightarrow> real \<Rightarrow> real \<Rightarrow> real \<Rightarrow> bool \<Rightarrow> bool
     \<Rightarrow> work_item" where
  "raw_item a act st oe cw rw mid adhoc =
     \<lparr>assigned_to = a, activity = act, state = st, original_estimate = oe,
      completed_work = cw, remaining_work = rw, staff_email = None, staff_name = None,
      team = None, has_midsprint_addition = mid, has_adhoc = adhoc, is_done = False\<rparr>"

text \<open>One finished development task that nobody is assigned to.\<close>

definition unassigned_raw :: "work_item frame" where
  "unassigned_raw =
     \<lparr>columns = raw_columns,
      rows = [raw_item None (Some ''Development'') (Some ''Done'') 8 8 0 False False]\<rparr>"

definition unassigned_frame :: "work_item frame" where
  "unassigned_frame =
     \<lparr>columns = processed_columns,
      rows = [\<lparr>assigned_to = None, activity = Some ''Development'', state = Some ''Done'',
               original_estimate = 8, completed_work = 8, remaining_work = 0,
               staff_email = None, staff_name = None, team = Some ''Development'',
               has_midsprint_addition = False, has_adhoc = False, is_done = True\<rparr>]\<rparr>"

text \<open>No work item at all; the second frame also lacks two of the required columns.\<close>

definition empty_frame :: "work_item frame" where
  "empty_frame = \<lparr>columns = processed_columns, rows = []\<rparr>"

definition untitled_empty_frame :: "work_item frame" where
  "untitled_empty_frame =
     \<lparr>columns = [''State'', ''Assigned To'', ''Original Estimate'', ''Completed Work'',
                 ''Remaining Work'', ''Activity'', ''Tags'', ''staff_email'', ''staff_name'',
                 ''team'', ''has_midsprint_addition'', ''has_adhoc'', ''is_done''],
      rows = []\<rparr>"

text \<open>One staff member with a task in each of two teams.\<close>

definition two_team_raw :: "work_item frame" where
  "two_team_raw =
     \<lparr>columns = raw_columns,
      rows = [raw_item (Some ''Ahmed Talaat <atalaat@youxel.com>'') (Some ''Development'')
                (Some ''Done'') 10 10 0 True False,
              raw_item (Some ''Ahmed Talaat <atalaat@youxel.com>'') (Some ''Testing'')
                (Some ''Done'') 5 5 0 False False]\<rparr>"

definition two_team_frame :: "work_item frame" where
  "two_team_frame =
     \<lparr>columns = processed_columns,
      rows = [\<lparr>assigned_to = Some ''Ahmed Talaat <atalaat@youxel.com>'',
               activity = Some ''Development'', state = Some ''Done'',
               original_estimate = 10, completed_work = 10, remaining_work = 0,
               staff_email = Some ''atalaat@youxel.com'', staff_name = Some ''Ahmed Talaat'',
               team = Some ''Development'', has_midsprint_addition = True,
               has_adhoc = False, is_done = True\<rparr>,
              \<lparr>assigned_to = Some ''Ahmed Talaat <atalaat@youxel.com>'',
               activity = Some ''Testing'', state = Some ''Done'',
               original_estimate = 5, completed_work = 5, remaining_work = 0,
               staff_email = Some ''atalaat@youxel.com'', staff_name = Some ''Ahmed Talaat'',
               team = Some ''Testing'', has_midsprint_addition = False,
               has_adhoc = False, is_done = True\<rparr>]\<rparr>"

definition two_team_staff_agg :: "staff_aggregate list" where
  "two_team_staff_agg =
     [\<lparr>sa_staff_email = ''atalaat@youxel.com'', sa_staff_name = ''Ahmed Talaat'',
       sa_team = ''Development'', sa_original_estimate_total = 10,
       sa_completed_work_total = 10, sa_remaining_work_total = 0, sa_done_count = 1,
       sa_total_count = 1, sa_midsprint_count = 1, sa_adhoc_count = 0\<rparr>,
      \<lparr>sa_staff_email = ''atalaat@youxel.com'', sa_staff_name = ''Ahmed Talaat'',
       sa_team = ''Testing'', sa_original_estimate_total = 5,
       sa_completed_work_total = 5, sa_remaining_work_total = 0, sa_done_count = 1,
       sa_total_count = 1, sa_midsprint_count = 0, sa_adhoc_count = 0\<rparr>]"

definition two_team_staff_metrics :: "metrics_row list" where
  "two_team_staff_metrics =
     [\<lparr>m_staff_name = Some ''Ahmed Talaat'', m_staff_email = Some ''atalaat@youxel.com'',
       m_team = ''Development'', m_original_estimate = 10, m_completed_work = 10,
       m_remaining_work = 0, m_capacity = 63, m_done_count = 1, m_total_count = 1,
       performance_rate = 1, utilization = 10 / 63, done_tasks_pct = 1,
       midsprint_addition_pct = 1, adhoc_pct = 0, kpi = 577 / 630\<rparr>,
      \<lparr>m_staff_name = Some ''Ahmed Talaat'', m_staff_email = Some ''atalaat@youxel.com'',
       m_team = ''Testing'', m_original_estimate = 5, m_completed_work = 5,
       m_remaining_work = 0, m_capacity = 63, m_done_count = 1, m_total_count = 1,
       performance_rate = 1, utilization = 5 / 63, done_tasks_pct = 1,
       midsprint_addition_pct = 2, adhoc_pct = 0, kpi = 286 / 315\<rparr>]"

text \<open>The sums of \<open>total_count\<close> over the staff groups and over the team groups.\<close>

definition total_count_sums :: "work_item frame \<Rightarrow> py_error + int \<times> int" where
  "total_count_sums df =
     bind_err (aggregate_by_staff df) (\<lambda>staff_agg.
     bind_err (aggregate_by_team df) (\<lambda>team_agg.
       Inr (sum_list (map sa_total_count staff_agg), sum_list (map ta_total_count team_agg))))"

text \<open>
  Three processed work items: one with every key, one without an assignee, one whose
  activity is in no team.
\<close>

definition assigned_item :: work_item where
  "assigned_item =
     \<lparr>assigned_to = Some ''Mona Adel <madel@youxel.com>'', activity = Some ''Design'',
      state = Some ''Done'', original_estimate = 6, completed_work = 6, remaining_work = 0,
      staff_email = Some ''madel@youxel.com'', staff_name = Some ''Mona Adel'',
      team = Some ''Design'', has_midsprint_addition = False, has_adhoc = False,
      is_done = True\<rparr>"

definition unassigned_item :: work_item where
  "unassigned_item =
     \<lparr>assigned_to = None, activity = Some ''Development'', state = Some ''Done'',
      original_estimate = 8, completed_work = 8, remaining_work = 0,
      staff_email = None, staff_name = None, team = Some ''Development'',
      has_midsprint_addition = False, has_adhoc = False, is_done = True\<rparr>"

definition unmapped_item :: work_item where
  "unmapped_item =
     \<lparr>assigned_to = Some ''Omar Samy <osamy@youxel.com>'', activity = Some ''Deployment'',
      state = Some ''Active'', original_estimate = 4, completed_work = 1, remaining_work = 3,
      staff_email = Some ''osamy@youxel.com'', staff_name = Some ''Omar Samy'',
      team = None, has_midsprint_addition = False, has_adhoc = False, is_done = False\<rparr>"

definition mixed_frame :: "work_item frame" where
  "mixed_frame =
     \<lparr>columns = processed_columns, rows = [assigned_item, unassigned_item, unmapped_item]\<rparr>"

text \<open>A capacity table without the second staff member, for the capacity lookup.\<close>

definition lookup_capacity :: "capacity_entry frame" where
  "lookup_capacity =
     \<lparr>columns = [''staff_member'', ''team'', ''expected_hours'', ''vacation_hours'',
                 ''days_off_hours'', ''remaining_capacity''],
      rows = [\<lparr>staff_member = ''Ahmed Talaat <atalaat@youxel.com>'',
               cap_team = Some ''Development'', remaining_capacity = 40\<rparr>,
              \<lparr>staff_member = ''Mona Adel <madel@youxel.com>'',
               cap_team = Some ''Development'', remaining_capacity = 50\<rparr>,
              \<lparr>staff_member = ''Omar Samy <osamy@youxel.com>'',
               cap_team = Some ''Testing'', remaining_capacity = 30\<rparr>]\<rparr>"

definition lookup_staff_agg :: "staff_aggregate list" where
  "lookup_staff_agg =
     [\<lparr>sa_staff_email = ''atalaat@youxel.com'', sa_staff_name = ''Ahmed Talaat'',
       sa_team = ''Development'', sa_original_estimate_total = 89,
       sa_completed_work_total = 64, sa_remaining_work_total = 1, sa_done_count = 10,
       sa_total_count = 10, sa_midsprint_count = 0, sa_adhoc_count = 1\<rparr>,
      \<lparr>sa_staff_email = ''sali@youxel.com'', sa_staff_name = ''Sara Ali'',
       sa_team = ''Development'', sa_original_estimate_total = 40,
       sa_completed_work_total = 30, sa_remaining_work_total = 2, sa_done_count = 3,
       sa_total_count = 4, sa_midsprint_count = 0, sa_adhoc_count = 0\<rparr>]"

definition lookup_team_agg :: "team_aggregate list" where
  "lookup_team_agg =
     [\<lparr>ta_team = ''Development'', ta_original_estimate_total = 129,
       ta_completed_work_total = 94, ta_remaining_work_total = 3, ta_done_count = 13,
       ta_total_count = 14, ta_midsprint_count = 0, ta_adhoc_count = 1\<rparr>]"

text \<open>A metrics table around the thresholds of \<open>validate_metrics\<close>.\<close>

definition metric_row :: "string \<Rightarrow> real \<Rightarrow> real \<Rightarrow> real \<Rightarrow> metrics_row" where
  "metric_row name perf util k =
     \<lparr>m_staff_name = Some name, m_staff_email = Some (name @ ''@youxel.com''),
      m_team = ''Development'', m_original_estimate = 0, m_completed_work = 0,
      m_remaining_work = 0, m_capacity = 63, m_done_count = 0, m_total_count = 0,
      performance_rate = perf, utilization = util, done_tasks_pct = 0,
      midsprint_addition_pct = 0, adhoc_pct = 0, kpi = k\<rparr>"

definition boundary_metrics :: "metrics_row frame" where
  "boundary_metrics =
     \<lparr>columns = staff_metrics_columns,
      rows = [metric_row ''a'' 1 (151 / 100) 1,
              metric_row ''b'' 1 (149 / 100) 1,
              metric_row ''c'' 1 (15 / 10) 1,
              metric_row ''d'' (49 / 100) 1 (3 / 10),
              metric_row ''e'' (5 / 10) 1 (15 / 10),
              metric_row ''f'' 1 1 (29 / 100),
              metric_row ''g'' 1 1 (151 / 100)]\<rparr>"

section \<open>Properties\<close>

subsection \<open>The ratio functions and the error monad\<close>

lemma calculate_performance_rate_value:
  "calculate_performance_rate a b c = Inr (if b + c = 0 then 0 else a / (b + c))"
  by (simp add: calculate_performance_rate_def py_truediv_def)

lemma calculate_utilization_value:
  "calculate_utilization a c = Inr (if c = 0 then 0 else a / c)"
  by (simp add: calculate_utilization_def py_truediv_def)

lemma calculate_done_tasks_percentage_value:
  "calculate_done_tasks_percentage d t =
     Inr (if t = 0 then 0 else real_of_int d / real_of_int t)"
  by (simp add: calculate_done_tasks_percentage_def py_truediv_def)

lemma calculate_midsprint_addition_percentage_value:
  "calculate_midsprint_addition_percentage w t = Inr (if t = 0 then 0 else w / t)"
  by (simp add: calculate_midsprint_addition_percentage_def py_truediv_def)

lemma calculate_adhoc_percentage_value:
  "calculate_adhoc_percentage w t = Inr (if t = 0 then 0 else w / t)"
  by (simp add: calculate_adhoc_percentage_def py_truediv_def)

lemmas ratio_values = calculate_performance_rate_value calculate_utilization_value
  calculate_done_tasks_percentage_value calculate_midsprint_addition_percentage_value
  calculate_adhoc_percentage_value

lemma bind_err_Inr [simp]: "bind_err (Inr x) f = f x"
  by (simp add: bind_err_def)

lemma bind_err_Inl [simp]: "bind_err (Inl e) f = Inl e"
  by (simp add: bind_err_def)

lemma bind_err_eq_Inr: "bind_err m f = Inr y \<longleftrightarrow> (\<exists>x. m = Inr x \<and> f x = Inr y)"
  by (cases m) simp_all

lemma require_column_present [simp]: "c \<in> set cols \<Longrightarrow> require_column cols c = Inr ()"
  by (simp add: require_column_def)

lemma rows_DataFrame [simp]: "rows (DataFrame cols rs) = rs"
  by (simp add: DataFrame_def)

subsection \<open>The loop over the aggregates\<close>

lemma for_each_Inr:
  "for_each f xs = Inr ys \<Longrightarrow>
     length ys = length xs \<and> (\<forall>i<length xs. f (xs ! i) = Inr (ys ! i))"
proof (induction xs arbitrary: ys)
  case Nil
  then show ?case by simp
next
  case (Cons x xs)
  from Cons.prems obtain y zs where y: "f x = Inr y" and zs: "for_each f xs = Inr zs"
    and ys: "ys = y # zs"
    by (auto simp: bind_err_eq_Inr)
  from Cons.IH [OF zs] have len: "length zs = length xs"
    and nth: "\<And>i. i < length xs \<Longrightarrow> f (xs ! i) = Inr (zs ! i)"
    by simp_all
  show ?case
  proof (intro conjI allI impI)
    show "length ys = length (x # xs)" using ys len by simp
  next
    fix i assume "i < length (x # xs)"
    then show "f ((x # xs) ! i) = Inr (ys ! i)"
      using y nth ys by (cases i) simp_all
  qed
qed

lemma for_each_total:
  "(\<And>x. x \<in> set xs \<Longrightarrow> \<exists>y. f x = Inr y) \<Longrightarrow> \<exists>ys. for_each f xs = Inr ys"
proof (induction xs)
  case Nil
  then show ?case by simp
next
  case (Cons x xs)
  then obtain y where "f x = Inr y" by (meson list.set_intros(1))
  moreover from Cons obtain zs where "for_each f xs = Inr zs" by (meson list.set_intros(2))
  ultimately show ?case by simp
qed

subsection \<open>One row of a metrics table\<close>

lemma staff_capacity_default:
  assumes "''staff_member'' \<in> set (columns capacity_data)"
    and "\<forall>c\<in>set (rows capacity_data).
           staff_member c \<noteq> sa_staff_name staff @ '' <'' @ sa_staff_email staff @ ''>''"
  shows "staff_capacity capacity_data staff = Inr 63"
proof -
  have "filter (\<lambda>c. staff_member c = sa_staff_name staff @ '' <'' @ sa_staff_email staff @ ''>'')
          (rows capacity_data) = []"
    using assms(2) by (simp add: filter_empty_conv)
  then show ?thesis
    using assms(1) by (simp add: staff_capacity_def)
qed

lemma staff_capacity_total:
  assumes "''staff_member'' \<in> set (columns capacity_data)"
    and "''remaining_capacity'' \<in> set (columns capacity_data)"
  shows "\<exists>c. staff_capacity capacity_data staff = Inr c"
  using assms by (simp add: staff_capacity_def split: list.split)

lemma tagged_work_value:
  "flag_col \<in> set cols \<Longrightarrow> ''Completed Work'' \<in> set cols \<Longrightarrow>
     tagged_work cols flag_col flag tasks = Inr (sum_list (map completed_work (filter flag tasks)))"
  by (simp add: tagged_work_def)

lemma staff_metrics_row_total:
  assumes "staff_capacity capacity_data staff = Inr c"
    and "''staff_email'' \<in> set (columns azure_data)"
    and "''has_midsprint_addition'' \<in> set (columns azure_data)"
    and "''has_adhoc'' \<in> set (columns azure_data)"
    and "''Completed Work'' \<in> set (columns azure_data)"
  shows "\<exists>y. staff_metrics_row self capacity_data azure_data staff = Inr y"
  using assms by (simp add: staff_metrics_row_def tagged_work_value ratio_values Let_def)

lemma staff_metrics_row_capacity:
  assumes "staff_metrics_row self capacity_data azure_data staff = Inr y"
  shows "staff_capacity capacity_data staff = Inr (m_capacity y)
       \<and> utilization y = (if m_capacity y = 0 then 0
                          else sa_completed_work_total staff / m_capacity y)"
  using assms
  by (auto simp: staff_metrics_row_def ratio_values Let_def bind_err_eq_Inr)

lemma team_capacity_value:
  assumes "''team'' \<in> set (columns capacity_data)"
    and "''remaining_capacity'' \<in> set (columns capacity_data)"
  shows "team_capacity capacity_data tm =
     Inr (sum_list (map remaining_capacity
            (filter (\<lambda>c. cap_team c = Some (ta_team tm)) (rows capacity_data))))"
  using assms by (simp add: team_capacity_def)

lemma team_metrics_row_total:
  assumes "team_capacity capacity_data tm = Inr c"
    and "''team'' \<in> set (columns azure_data)"
    and "''has_midsprint_addition'' \<in> set (columns azure_data)"
    and "''has_adhoc'' \<in> set (columns azure_data)"
    and "''Completed Work'' \<in> set (columns azure_data)"
  shows "\<exists>y. team_metrics_row self capacity_data azure_data tm = Inr y"
  using assms by (simp add: team_metrics_row_def tagged_work_value ratio_values Let_def)

lemma team_metrics_row_capacity:
  assumes "team_metrics_row self capacity_data azure_data tm = Inr y"
  shows "team_capacity capacity_data tm = Inr (m_capacity y)
       \<and> utilization y = (if m_capacity y = 0 then 0
                          else ta_completed_work_total tm / m_capacity y)"
  using assms
  by (auto simp: team_metrics_row_def ratio_values Let_def bind_err_eq_Inr)

subsection \<open>The anomaly checks in closed form\<close>

lemma validate_metrics_value:
  assumes "set [''utilization'', ''performance_rate'', ''kpi''] \<subseteq> set (columns metrics)"
  shows "validate_metrics metrics =
     Inr \<lparr>mv_status =
            (if (\<exists>r\<in>set (rows metrics). utilization r > 15 / 10 \<or> performance_rate r < 5 / 10
                    \<or> kpi r < 3 / 10 \<or> kpi r > 15 / 10) then Warning else Success),
          mv_warnings =
            map (\<lambda>r. \<lparr>w_type = high_utilization, w_staff = row_label (columns metrics) r,
                       w_value = utilization r\<rparr>)
              (filter (\<lambda>r. utilization r > 15 / 10) (rows metrics))
            @ map (\<lambda>r. \<lparr>w_type = low_performance_rate, w_staff = row_label (columns metrics) r,
                         w_value = performance_rate r\<rparr>)
              (filter (\<lambda>r. performance_rate r < 5 / 10) (rows metrics))
            @ map (\<lambda>r. \<lparr>w_type = kpi_outlier, w_staff = row_label (columns metrics) r,
                         w_value = kpi r\<rparr>)
              (filter (\<lambda>r. kpi r < 3 / 10 \<or> kpi r > 15 / 10) (rows metrics))\<rparr>"
  using assms
  by (auto simp: validate_metrics_def Let_def filter_empty_conv)

lemmas aggregate_defs = aggregate_by_staff_def aggregate_by_team_def agg_columns_def groupby_def
  staff_key_def team_key_def List.map_filter_def staff_agg_row_def team_agg_row_def

lemmas metrics_defs = calculate_staff_metrics_def calculate_team_metrics_def
  staff_metrics_row_def team_metrics_row_def staff_capacity_def team_capacity_def
  require_column_def tagged_work_def ratio_values calculate_kpi_def SprintCalculator_def
  default_kpi_weights_def DataFrame_def

subsection \<open>Validation of the data in closed form\<close>

lemmas normalise_defs = process_azure_data_def add_column_def process_row_def extract_email_def
  extract_name_def search_name_def email_group_def newline_def is_space_def map_team_def
  team_mapping_def state_is_done_def raw_columns_def processed_columns_def raw_item_def

lemma validate_data_value:
  assumes "set [''Assigned To'', ''team'', ''Activity'', ''Completed Work'', ''is_done'']
             \<subseteq> set (columns df)"
  shows "validate_data df =
     Inr \<lparr>status = (if set required_cols \<subseteq> set (columns df) then Success else Error),
          errors = (if set required_cols \<subseteq> set (columns df) then []
                    else [missing_columns (filter (\<lambda>c. c \<notin> set (columns df)) required_cols)]),
          warnings =
            (if \<exists>r\<in>set (rows df). assigned_to r = None
             then [missing_assignments (length (filter (\<lambda>r. assigned_to r = None) (rows df)))]
             else [])
            @ (if \<exists>r\<in>set (rows df). team r = None
               then [unmapped_activities
                       (unique (map activity (filter (\<lambda>r. team r = None) (rows df))))]
               else [])
            @ (if \<exists>r\<in>set (rows df). completed_work r > 0 \<and> \<not> is_done r
               then [incomplete_tasks_with_work
                       (length (filter (\<lambda>r. completed_work r > 0 \<and> \<not> is_done r) (rows df)))]
               else [])\<rparr>"
proof -
  have m: "filter (\<lambda>c. c \<notin> set (columns df)) required_cols = []
             \<longleftrightarrow> set required_cols \<subseteq> set (columns df)"
    by (auto simp: filter_empty_conv)
  show ?thesis
    using assms
    by (auto simp: validate_data_def Let_def m filter_empty_conv)
qed

subsection \<open>Grouping\<close>

lemma require_columns_present [simp]:
  "set cs \<subseteq> set cols \<Longrightarrow> require_columns cols cs = Inr ()"
  by (induction cs) simp_all

lemma staff_key_eq_Some:
  "staff_key r = Some (e, n, t)
     \<longleftrightarrow> staff_email r = Some e \<and> staff_name r = Some n \<and> team r = Some t"
  by (auto simp: staff_key_def split: option.splits)

lemma staff_key_eq_None:
  "staff_key r = None \<longleftrightarrow> staff_email r = None \<or> staff_name r = None \<or> team r = None"
  by (auto simp: staff_key_def split: option.splits)

lemma set_map_filter_key: "set (List.map_filter key xs) = {k. \<exists>x\<in>set xs. key x = Some k}"
  by (auto simp: List.map_filter_def image_iff) force

lemma groupby_keys:
  "map fst (groupby key xs) = sort (remdups (List.map_filter key xs))"
  by (simp add: groupby_def o_def)

lemma distinct_groupby_keys: "distinct (map fst (groupby key xs))"
  by (simp add: groupby_keys)

lemma set_groupby:
  "set (groupby key xs)
     = (\<lambda>k. (k, filter (\<lambda>x. key x = Some k) xs)) ` {k. \<exists>x\<in>set xs. key x = Some k}"
  by (simp add: groupby_def set_map_filter_key)

lemma sum_length_filter_key:
  assumes "finite K" and "\<forall>x\<in>set xs. \<forall>k. key x = Some k \<longrightarrow> k \<in> K"
  shows "(\<Sum>k\<in>K. length (filter (\<lambda>x. key x = Some k) xs))
           = length (filter (\<lambda>x. key x \<noteq> None) xs)"
  using assms(2)
proof (induction xs)
  case Nil
  then show ?case by simp
next
  case (Cons a xs)
  then have IH: "(\<Sum>k\<in>K. length (filter (\<lambda>x. key x = Some k) xs))
           = length (filter (\<lambda>x. key x \<noteq> None) xs)"
    by simp
  show ?case
  proof (cases "key a")
    case None
    then show ?thesis using IH by simp
  next
    case (Some k0)
    with Cons.prems have k0: "k0 \<in> K" by simp
    have "(\<Sum>k\<in>K. length (filter (\<lambda>x. key x = Some k) (a # xs)))
            = (\<Sum>k\<in>K. (if k = k0 then 1 else 0) + length (filter (\<lambda>x. key x = Some k) xs))"
      using Some by (intro sum.cong) auto
    also have "\<dots> = (\<Sum>k\<in>K. if k = k0 then 1 else 0)
                    + (\<Sum>k\<in>K. length (filter (\<lambda>x. key x = Some k) xs))"
      by (simp add: sum.distrib)
    also have "(\<Sum>k\<in>K. if k = k0 then 1 else 0) = (1::nat)"
      using assms(1) k0 by simp
    finally show ?thesis using IH Some by simp
  qed
qed

lemma groupby_total:
  "sum_list (map (\<lambda>g. length (snd g)) (groupby key xs))
     = length (filter (\<lambda>x. key x \<noteq> None) xs)"
proof -
  let ?ks = "sort (remdups (List.map_filter key xs))"
  have "sum_list (map (\<lambda>g. length (snd g)) (groupby key xs))
          = sum_list (map (\<lambda>k. length (filter (\<lambda>x. key x = Some k) xs)) ?ks)"
    by (simp add: groupby_def o_def)
  also have "\<dots> = (\<Sum>k\<in>set ?ks. length (filter (\<lambda>x. key x = Some k) xs))"
    by (intro sum_list_distinct_conv_sum_set) simp
  also have "\<dots> = length (filter (\<lambda>x. key x \<noteq> None) xs)"
  proof (rule sum_length_filter_key)
    show "finite (set ?ks)" by (rule finite_set)
    show "\<forall>x\<in>set xs. \<forall>k. key x = Some k \<longrightarrow> k \<in> set ?ks"
      by (auto simp: set_map_filter_key)
  qed
  finally show ?thesis .
qed

lemma sum_list_int: "sum_list (map (\<lambda>x. int (f x)) xs) = int (sum_list (map f xs))"
  by (induction xs) simp_all

lemma staff_agg_row_fields [simp]:
  "sa_total_count (staff_agg_row g) = int (length (snd g))"
  "sa_done_count (staff_agg_row g) = int (length (filter is_done (snd g)))"
  "sa_staff_email (staff_agg_row g) = fst (fst g)"
  "sa_staff_name (staff_agg_row g) = fst (snd (fst g))"
  "sa_team (staff_agg_row g) = snd (snd (fst g))"
  by (simp_all add: staff_agg_row_def split: prod.splits)

lemma team_agg_row_fields [simp]:
  "ta_total_count (team_agg_row g) = int (length (snd g))"
  "ta_done_count (team_agg_row g) = int (length (filter is_done (snd g)))"
  "ta_team (team_agg_row g) = fst g"
  by (simp_all add: team_agg_row_def split: prod.splits)

lemma aggregate_by_staff_value:
  "set ([''staff_email'', ''staff_name'', ''team''] @ agg_columns) \<subseteq> set (columns df) \<Longrightarrow>
     aggregate_by_staff df = Inr (map staff_agg_row (groupby staff_key (rows df)))"
  unfolding aggregate_by_staff_def by (subst require_columns_present) simp_all

lemma aggregate_by_team_value:
  "set ([''team''] @ agg_columns) \<subseteq> set (columns df) \<Longrightarrow>
     aggregate_by_team df = Inr (map team_agg_row (groupby team_key (rows df)))"
  unfolding aggregate_by_team_def by (subst require_columns_present) simp_all

lemma staff_total:
  "sum_list (map sa_total_count (map staff_agg_row (groupby staff_key xs)))
     = int (length (filter (\<lambda>r. staff_email r \<noteq> None \<and> staff_name r \<noteq> None \<and> team r \<noteq> None) xs))"
proof -
  have "(\<lambda>r. staff_key r \<noteq> None)
          = (\<lambda>r. staff_email r \<noteq> None \<and> staff_name r \<noteq> None \<and> team r \<noteq> None)"
    by (auto simp: fun_eq_iff staff_key_eq_None)
  then show ?thesis
    using groupby_total [of staff_key xs] by (simp add: o_def sum_list_int)
qed

lemma team_total:
  "sum_list (map ta_total_count (map team_agg_row (groupby team_key xs)))
     = int (length (filter (\<lambda>r. team r \<noteq> None) xs))"
  using groupby_total [of team_key xs] by (simp add: o_def sum_list_int team_key_def)

lemma length_filter_mono:
  "(\<And>x. x \<in> set xs \<Longrightarrow> P x \<Longrightarrow> Q x) \<Longrightarrow> length (filter P xs) \<le> length (filter Q xs)"
  by (induction xs) auto

subsection \<open>The two regular expressions\<close>

lemma lazy_until_gt_append:
  "CHR ''>'' \<notin> set e \<Longrightarrow> newline \<notin> set e \<Longrightarrow>
     lazy_until_gt acc (e @ CHR ''>'' # rest) = Some (acc @ e)"
  by (induction e arbitrary: acc) auto

lemma email_group_bracket:
  assumes "e \<noteq> []" "CHR ''>'' \<notin> set e" "newline \<notin> set e"
  shows "email_group (e @ CHR ''>'' # rest) = Some e"
proof -
  from assms(1) obtain d ds where e: "e = d # ds" by (cases e) auto
  with assms show ?thesis
    by (auto simp: email_group_def lazy_until_gt_append)
qed

lemma search_email_skip: "CHR ''<'' \<notin> set p \<Longrightarrow> search_email (p @ s) = search_email s"
  by (induction p) auto

lemma search_email_no_lt: "CHR ''<'' \<notin> set s \<Longrightarrow> search_email s = None"
  by (induction s) auto

lemma is_space_not_lt: "is_space c \<Longrightarrow> c \<noteq> CHR ''<''"
  by (auto simp: is_space_def)

lemma ws_then_lt_spaces: "\<forall>c\<in>set w. is_space c \<Longrightarrow> ws_then_lt (w @ CHR ''<'' # r)"
  by (induction w) simp_all

lemma ws_then_lt_no_lt: "CHR ''<'' \<notin> set s \<Longrightarrow> \<not> ws_then_lt s"
  by (induction s) auto

lemma ws_then_lt_nonspace_last:
  "n \<noteq> [] \<Longrightarrow> CHR ''<'' \<notin> set n \<Longrightarrow> \<not> is_space (last n) \<Longrightarrow> \<not> ws_then_lt (n @ s)"
proof (induction n)
  case Nil
  then show ?case by simp
next
  case (Cons c n)
  show ?case
  proof (cases "n = []")
    case True
    with Cons.prems show ?thesis by auto
  next
    case False
    with Cons have "\<not> ws_then_lt (n @ s)" by simp
    with Cons.prems show ?thesis by auto
  qed
qed

lemma lazy_name_prefix:
  assumes "CHR ''<'' \<notin> set n" "newline \<notin> set n" "n \<noteq> [] \<longrightarrow> \<not> is_space (last n)"
    and "\<forall>c\<in>set w. is_space c"
  shows "lazy_name acc (n @ w @ CHR ''<'' # r) = Some (acc @ n)"
  using assms(1-3)
proof (induction n arbitrary: acc)
  case Nil
  have "ws_then_lt (w @ CHR ''<'' # r)"
    using assms(4) by (rule ws_then_lt_spaces)
  then show ?case
    by (cases "w @ CHR ''<'' # r") simp_all
next
  case (Cons c n)
  from Cons.prems have "\<not> ws_then_lt ((c # n) @ w @ CHR ''<'' # r)"
    by (intro ws_then_lt_nonspace_last) auto
  moreover from Cons.prems have "n \<noteq> [] \<longrightarrow> \<not> is_space (last n)"
    by (auto split: if_splits)
  with Cons have "lazy_name (acc @ [c]) (n @ w @ CHR ''<'' # r) = Some ((acc @ [c]) @ n)"
    by simp
  ultimately show ?case
    using Cons.prems by auto
qed

lemma search_name_prefix:
  assumes "n \<noteq> []" "CHR ''<'' \<notin> set n" "newline \<notin> set n" "\<not> is_space (last n)"
    and "\<forall>c\<in>set w. is_space c"
  shows "search_name (n @ w @ CHR ''<'' # r) = Some n"
proof -
  from assms(1) obtain c cs where n: "n = c # cs" by (cases n) auto
  with assms have "lazy_name [c] (cs @ w @ CHR ''<'' # r) = Some ([c] @ cs)"
    by (intro lazy_name_prefix) (auto split: if_splits)
  with n assms(3) show ?thesis
    by (auto simp: search_name_def)
qed

lemma lazy_name_no_lt: "CHR ''<'' \<notin> set s \<Longrightarrow> lazy_name acc s = None"
proof (induction s arbitrary: acc)
  case Nil
  then show ?case by simp
next
  case (Cons c s)
  then have "\<not> ws_then_lt (c # s)"
    by (intro ws_then_lt_no_lt) simp
  with Cons show ?case by simp
qed

lemma search_name_no_lt: "CHR ''<'' \<notin> set s \<Longrightarrow> search_name s = None"
  by (cases s) (simp_all add: search_name_def lazy_name_no_lt)

subsection \<open>The claims\<close>

text \<open>
  C1. On non-negative arguments each of the five ratio functions returns a value (it
  never raises), the value is non-negative, and it is exactly 0 when the denominator
  (completed work plus remaining work, capacity, total count, total work) is 0.
\<close>

theorem ratios_nonneg_total:
  assumes "0 \<le> oe" "0 \<le> cw" "0 \<le> rw" "0 \<le> cap" "0 \<le> dc" "0 \<le> tc" "0 \<le> w" "0 \<le> tw"
  shows "(\<exists>r. calculate_performance_rate oe cw rw = Inr r \<and> 0 \<le> r \<and> (cw + rw = 0 \<longrightarrow> r = 0))
       \<and> (\<exists>r. calculate_utilization cw cap = Inr r \<and> 0 \<le> r \<and> (cap = 0 \<longrightarrow> r = 0))
       \<and> (\<exists>r. calculate_done_tasks_percentage dc tc = Inr r \<and> 0 \<le> r \<and> (tc = 0 \<longrightarrow> r = 0))
       \<and> (\<exists>r. calculate_midsprint_addition_percentage w tw = Inr r \<and> 0 \<le> r \<and> (tw = 0 \<longrightarrow> r = 0))
       \<and> (\<exists>r. calculate_adhoc_percentage w tw = Inr r \<and> 0 \<le> r \<and> (tw = 0 \<longrightarrow> r = 0))"
  using assms
  by (simp add: calculate_performance_rate_def calculate_utilization_def
      calculate_done_tasks_percentage_def calculate_midsprint_addition_percentage_def
      calculate_adhoc_percentage_def py_truediv_def Let_def)

theorem ratios_nonneg_total_witness:
  "(calculate_performance_rate 89 64 1 = Inr (89 / 65)
      \<and> calculate_utilization 64 63 = Inr (64 / 63)
      \<and> calculate_done_tasks_percentage 10 10 = Inr 1
      \<and> calculate_midsprint_addition_percentage 16 64 = Inr (1 / 4)
      \<and> calculate_adhoc_percentage 16 64 = Inr (1 / 4))
   \<and> (calculate_performance_rate 89 0 0 = Inr 0
      \<and> calculate_utilization 64 0 = Inr 0
      \<and> calculate_done_tasks_percentage 0 0 = Inr 0
      \<and> calculate_midsprint_addition_percentage 16 0 = Inr 0
      \<and> calculate_adhoc_percentage 16 0 = Inr 0)"
proof -
  have a: "(0::real) \<le> 89" "(0::real) \<le> 64" "(0::real) \<le> 1" "(0::real) \<le> 63"
    "(0::int) \<le> 10" "(0::real) \<le> 16" "(0::real) \<le> 0" "(0::int) \<le> 0"
    by simp_all
  note n = ratios_nonneg_total [OF a(1) a(2) a(3) a(4) a(5) a(5) a(6) a(2)]
  note z = ratios_nonneg_total [OF a(1) a(7) a(7) a(7) a(8) a(8) a(6) a(7)]
  have "calculate_performance_rate 89 0 0 = Inr 0"
    and "calculate_utilization 0 0 = Inr 0"
    and "calculate_done_tasks_percentage 0 0 = Inr 0"
    and "calculate_midsprint_addition_percentage 16 0 = Inr 0"
    and "calculate_adhoc_percentage 16 0 = Inr 0"
    using z by auto
  moreover have "calculate_utilization 64 0 = Inr 0"
    using ratios_nonneg_total [OF a(1) a(2) a(3) a(7) a(5) a(5) a(6) a(2)] by auto
  ultimately show ?thesis
    using n by (simp add: ratio_values)
qed

text \<open>
  C2. With the columns they read in place, \<open>calculate_staff_metrics\<close> and
  \<open>calculate_team_metrics\<close> return one row for each aggregate. A staff aggregate whose
  identity \<open>staff_name <staff_email>\<close> equals the \<open>staff_member\<close> of no capacity row
  gets the capacity 63, in the row and in the utilization ratio. A team gets the sum of
  \<open>remaining_capacity\<close> over the capacity rows whose team equals its name.
\<close>

theorem capacity_lookup:
  assumes cap: "set [''staff_member'', ''team'', ''remaining_capacity'']
                  \<subseteq> set (columns capacity_data)"
    and az: "set [''staff_email'', ''team'', ''has_midsprint_addition'', ''has_adhoc'',
                  ''Completed Work''] \<subseteq> set (columns azure_data)"
  shows "\<exists>sm tm.
      calculate_staff_metrics self staff_agg capacity_data azure_data = Inr sm
    \<and> calculate_team_metrics self team_agg capacity_data azure_data = Inr tm
    \<and> length (rows sm) = length staff_agg
    \<and> length (rows tm) = length team_agg
    \<and> (\<forall>i<length staff_agg.
          (\<forall>c\<in>set (rows capacity_data).
              staff_member c \<noteq> sa_staff_name (staff_agg ! i) @ '' <''
                                  @ sa_staff_email (staff_agg ! i) @ ''>'')
          \<longrightarrow> m_capacity (rows sm ! i) = 63
              \<and> utilization (rows sm ! i) = sa_completed_work_total (staff_agg ! i) / 63)
    \<and> (\<forall>i<length team_agg.
          m_capacity (rows tm ! i)
            = sum_list (map remaining_capacity
                (filter (\<lambda>c. cap_team c = Some (ta_team (team_agg ! i))) (rows capacity_data)))
        \<and> utilization (rows tm ! i)
            = (if m_capacity (rows tm ! i) = 0 then 0
               else ta_completed_work_total (team_agg ! i) / m_capacity (rows tm ! i)))"
proof -
  have "\<And>s. \<exists>y. staff_metrics_row self capacity_data azure_data s = Inr y"
  proof -
    fix s
    from cap obtain c where "staff_capacity capacity_data s = Inr c"
      using staff_capacity_total [of capacity_data s] by auto
    then show "\<exists>y. staff_metrics_row self capacity_data azure_data s = Inr y"
      using az by (intro staff_metrics_row_total) simp_all
  qed
  then obtain srows where srows:
    "for_each (staff_metrics_row self capacity_data azure_data) staff_agg = Inr srows"
    using for_each_total [of staff_agg "staff_metrics_row self capacity_data azure_data"]
    by blast
  have "\<And>t. \<exists>y. team_metrics_row self capacity_data azure_data t = Inr y"
  proof -
    fix t
    from cap have "\<exists>c. team_capacity capacity_data t = Inr c"
      by (simp add: team_capacity_value)
    then show "\<exists>y. team_metrics_row self capacity_data azure_data t = Inr y"
      using az by (auto intro!: team_metrics_row_total)
  qed
  then obtain trows where trows:
    "for_each (team_metrics_row self capacity_data azure_data) team_agg = Inr trows"
    using for_each_total [of team_agg "team_metrics_row self capacity_data azure_data"]
    by blast
  let ?sm = "DataFrame staff_metrics_columns srows"
  let ?tm = "DataFrame team_metrics_columns trows"
  have s1: "calculate_staff_metrics self staff_agg capacity_data azure_data = Inr ?sm"
    using srows by (simp add: calculate_staff_metrics_def)
  have t1: "calculate_team_metrics self team_agg capacity_data azure_data = Inr ?tm"
    using trows by (simp add: calculate_team_metrics_def)
  note sn = for_each_Inr [OF srows]
  note tn = for_each_Inr [OF trows]
  have s2: "\<forall>i<length staff_agg.
          (\<forall>c\<in>set (rows capacity_data).
              staff_member c \<noteq> sa_staff_name (staff_agg ! i) @ '' <''
                                  @ sa_staff_email (staff_agg ! i) @ ''>'')
          \<longrightarrow> m_capacity (rows ?sm ! i) = 63
              \<and> utilization (rows ?sm ! i) = sa_completed_work_total (staff_agg ! i) / 63"
  proof (intro allI impI)
    fix i
    assume i: "i < length staff_agg"
      and miss: "\<forall>c\<in>set (rows capacity_data).
              staff_member c \<noteq> sa_staff_name (staff_agg ! i) @ '' <''
                                  @ sa_staff_email (staff_agg ! i) @ ''>''"
    from sn i have r:
      "staff_metrics_row self capacity_data azure_data (staff_agg ! i) = Inr (srows ! i)"
      by simp
    from cap miss have "staff_capacity capacity_data (staff_agg ! i) = Inr 63"
      by (intro staff_capacity_default) simp_all
    with staff_metrics_row_capacity [OF r]
    show "m_capacity (rows ?sm ! i) = 63
              \<and> utilization (rows ?sm ! i) = sa_completed_work_total (staff_agg ! i) / 63"
      by simp
  qed
  have t2: "\<forall>i<length team_agg.
          m_capacity (rows ?tm ! i)
            = sum_list (map remaining_capacity
                (filter (\<lambda>c. cap_team c = Some (ta_team (team_agg ! i))) (rows capacity_data)))
        \<and> utilization (rows ?tm ! i)
            = (if m_capacity (rows ?tm ! i) = 0 then 0
               else ta_completed_work_total (team_agg ! i) / m_capacity (rows ?tm ! i))"
  proof (intro allI impI)
    fix i
    assume i: "i < length team_agg"
    from tn i have r:
      "team_metrics_row self capacity_data azure_data (team_agg ! i) = Inr (trows ! i)"
      by simp
    from cap have "team_capacity capacity_data (team_agg ! i) =
        Inr (sum_list (map remaining_capacity
            (filter (\<lambda>c. cap_team c = Some (ta_team (team_agg ! i))) (rows capacity_data))))"
      by (simp add: team_capacity_value)
    with team_metrics_row_capacity [OF r]
    show "m_capacity (rows ?tm ! i)
            = sum_list (map remaining_capacity
                (filter (\<lambda>c. cap_team c = Some (ta_team (team_agg ! i))) (rows capacity_data)))
        \<and> utilization (rows ?tm ! i)
            = (if m_capacity (rows ?tm ! i) = 0 then 0
               else ta_completed_work_total (team_agg ! i) / m_capacity (rows ?tm ! i))"
      by simp
  qed
  from s1 t1 sn tn s2 t2 show ?thesis
    by (intro exI [of _ ?sm] exI [of _ ?tm]) simp
qed

theorem capacity_lookup_witness:
  "\<exists>sm tm.
      calculate_staff_metrics (SprintCalculator None) lookup_staff_agg lookup_capacity
        scenario_azure = Inr sm
    \<and> calculate_team_metrics (SprintCalculator None) lookup_team_agg lookup_capacity
        scenario_azure = Inr tm
    \<and> m_capacity (rows sm ! 1) = 63
    \<and> utilization (rows sm ! 1) = 30 / 63
    \<and> m_capacity (rows tm ! 0) = 90
    \<and> utilization (rows tm ! 0) = 94 / 90"
proof -
  have cap: "set [''staff_member'', ''team'', ''remaining_capacity'']
               \<subseteq> set (columns lookup_capacity)"
    by (simp add: lookup_capacity_def)
  have az: "set [''staff_email'', ''team'', ''has_midsprint_addition'', ''has_adhoc'',
                 ''Completed Work''] \<subseteq> set (columns scenario_azure)"
    by (simp add: scenario_azure_def)
  have miss: "\<forall>c\<in>set (rows lookup_capacity).
      staff_member c \<noteq> sa_staff_name (lookup_staff_agg ! 1) @ '' <''
                          @ sa_staff_email (lookup_staff_agg ! 1) @ ''>''"
    by (simp add: lookup_capacity_def lookup_staff_agg_def)
  have len: "1 < length lookup_staff_agg" "0 < length lookup_team_agg"
    by (simp_all add: lookup_staff_agg_def lookup_team_agg_def)
  from capacity_lookup [OF cap az, of "SprintCalculator None" lookup_staff_agg lookup_team_agg]
  obtain sm tm where
    r: "calculate_staff_metrics (SprintCalculator None) lookup_staff_agg lookup_capacity
          scenario_azure = Inr sm"
       "calculate_team_metrics (SprintCalculator None) lookup_team_agg lookup_capacity
          scenario_azure = Inr tm"
    and s: "\<forall>i<length lookup_staff_agg.
          (\<forall>c\<in>set (rows lookup_capacity).
              staff_member c \<noteq> sa_staff_name (lookup_staff_agg ! i) @ '' <''
                                  @ sa_staff_email (lookup_staff_agg ! i) @ ''>'')
          \<longrightarrow> m_capacity (rows sm ! i) = 63
              \<and> utilization (rows sm ! i) = sa_completed_work_total (lookup_staff_agg ! i) / 63"
    and t: "\<forall>i<length lookup_team_agg.
          m_capacity (rows tm ! i)
            = sum_list (map remaining_capacity
                (filter (\<lambda>c. cap_team c = Some (ta_team (lookup_team_agg ! i)))
                   (rows lookup_capacity)))
        \<and> utilization (rows tm ! i)
            = (if m_capacity (rows tm ! i) = 0 then 0
               else ta_completed_work_total (lookup_team_agg ! i) / m_capacity (rows tm ! i))"
    by blast
  from s len(1) miss
  have "m_capacity (rows sm ! 1) = 63
      \<and> utilization (rows sm ! 1) = sa_completed_work_total (lookup_staff_agg ! 1) / 63"
    by blast
  then have "m_capacity (rows sm ! 1) = 63" and "utilization (rows sm ! 1) = 30 / 63"
    by (simp_all add: lookup_staff_agg_def)
  moreover from t len(2)
  have tc: "m_capacity (rows tm ! 0)
            = sum_list (map remaining_capacity
                (filter (\<lambda>c. cap_team c = Some (ta_team (lookup_team_agg ! 0)))
                   (rows lookup_capacity)))"
    and tu: "utilization (rows tm ! 0)
            = (if m_capacity (rows tm ! 0) = 0 then 0
               else ta_completed_work_total (lookup_team_agg ! 0) / m_capacity (rows tm ! 0))"
    by blast+
  from tc have c90: "m_capacity (rows tm ! 0) = 90"
    by (simp add: lookup_team_agg_def lookup_capacity_def)
  moreover from tu c90 have "utilization (rows tm ! 0) = 94 / 90"
    by (simp add: lookup_team_agg_def)
  ultimately show ?thesis
    using r by blast
qed

text \<open>
  C3. The claim gives both validators the status \<open>warning\<close> when a warning and no fatal
  issue was recorded. \<open>validate_metrics\<close> does so. \<open>validate_data\<close> sets its status to
  \<open>error\<close> for a missing required column and to nothing else: the processed frame of
  one unassigned task gets a warning and keeps the status \<open>success\<close>.
\<close>

theorem validator_status_counterexample:
  "process_azure_data unassigned_raw = Inr unassigned_frame
   \<and> validate_data unassigned_frame
       = Inr \<lparr>status = Success, errors = [], warnings = [missing_assignments 1]\<rparr>"
  by (simp add: unassigned_raw_def unassigned_frame_def normalise_defs validate_data_def
      required_cols_def require_column_def Let_def)

text \<open>
  C3, amended. On a table with the three metric columns \<open>validate_metrics\<close> returns the
  status \<open>warning\<close> when it recorded a warning and \<open>success\<close> when it recorded none. On
  a frame with the columns its checks read, \<open>validate_data\<close> returns the status \<open>error\<close>
  when a required column is missing, with an error recorded, and \<open>success\<close> otherwise,
  whatever warnings it recorded.
\<close>

theorem validator_status:
  assumes m: "set [''utilization'', ''performance_rate'', ''kpi''] \<subseteq> set (columns metrics)"
    and d: "set [''Assigned To'', ''team'', ''Activity'', ''Completed Work'', ''is_done'']
              \<subseteq> set (columns df)"
  shows "\<exists>rep res. validate_metrics metrics = Inr rep \<and> validate_data df = Inr res
    \<and> (mv_status rep = Warning \<longleftrightarrow> mv_warnings rep \<noteq> [])
    \<and> (mv_status rep = Success \<longleftrightarrow> mv_warnings rep = [])
    \<and> (status res = Error \<longleftrightarrow> \<not> set required_cols \<subseteq> set (columns df))
    \<and> (status res = Success \<longleftrightarrow> set required_cols \<subseteq> set (columns df))
    \<and> (errors res \<noteq> [] \<longleftrightarrow> \<not> set required_cols \<subseteq> set (columns df))"
  unfolding validate_metrics_value [OF m] validate_data_value [OF d]
  by (auto simp: filter_empty_conv)

theorem validator_status_witness:
  "(\<exists>rep res. validate_metrics boundary_metrics = Inr rep
      \<and> validate_data unassigned_frame = Inr res
      \<and> mv_status rep = Warning \<and> mv_warnings rep \<noteq> []
      \<and> status res = Success \<and> errors res = [] \<and> warnings res \<noteq> [])
   \<and> (\<exists>rep res. validate_metrics boundary_metrics = Inr rep
      \<and> validate_data untitled_empty_frame = Inr res
      \<and> status res = Error \<and> errors res \<noteq> [] \<and> warnings res = [])"
proof -
  have m: "set [''utilization'', ''performance_rate'', ''kpi'']
             \<subseteq> set (columns boundary_metrics)"
    by (simp add: boundary_metrics_def staff_metrics_columns_def)
  have d1: "set [''Assigned To'', ''team'', ''Activity'', ''Completed Work'', ''is_done'']
              \<subseteq> set (columns unassigned_frame)"
    by (simp add: unassigned_frame_def processed_columns_def raw_columns_def)
  have d2: "set [''Assigned To'', ''team'', ''Activity'', ''Completed Work'', ''is_done'']
              \<subseteq> set (columns untitled_empty_frame)"
    by (simp add: untitled_empty_frame_def)
  have r1: "set required_cols \<subseteq> set (columns unassigned_frame)"
    by (simp add: unassigned_frame_def processed_columns_def raw_columns_def required_cols_def)
  have r2: "\<not> set required_cols \<subseteq> set (columns untitled_empty_frame)"
    by (simp add: untitled_empty_frame_def required_cols_def)
  have w: "\<And>rep. validate_metrics boundary_metrics = Inr rep \<Longrightarrow> mv_warnings rep \<noteq> []"
    unfolding validate_metrics_value [OF m]
    by (auto simp: boundary_metrics_def metric_row_def)
  have w1: "\<And>res. validate_data unassigned_frame = Inr res \<Longrightarrow> warnings res \<noteq> []"
    unfolding validate_data_value [OF d1]
    by (auto simp: unassigned_frame_def)
  have w2: "\<And>res. validate_data untitled_empty_frame = Inr res \<Longrightarrow> warnings res = []"
    unfolding validate_data_value [OF d2]
    by (auto simp: untitled_empty_frame_def)
  from validator_status [OF m d1] r1 w w1
  have "\<exists>rep res. validate_metrics boundary_metrics = Inr rep
      \<and> validate_data unassigned_frame = Inr res
      \<and> mv_status rep = Warning \<and> mv_warnings rep \<noteq> []
      \<and> status res = Success \<and> errors res = [] \<and> warnings res \<noteq> []"
    by metis
  moreover from validator_status [OF m d2] r2 w2
  have "\<exists>rep res. validate_metrics boundary_metrics = Inr rep
      \<and> validate_data untitled_empty_frame = Inr res
      \<and> status res = Error \<and> errors res \<noteq> [] \<and> warnings res = []"
    by metis
  ultimately show ?thesis by blast
qed

text \<open>
  C4. On a metrics table (one with the columns \<open>utilization\<close>, \<open>performance_rate\<close> and
  \<open>kpi\<close>) \<open>validate_metrics\<close> returns, and its warnings of each type are, row by row
  and once each, the rows that offend: utilization above 1.5 (1.5 itself is not
  flagged), performance rate below 0.5, KPI outside the closed interval from 0.3 to 1.5.
\<close>

theorem anomaly_thresholds:
  assumes "set [''utilization'', ''performance_rate'', ''kpi''] \<subseteq> set (columns metrics)"
  shows "\<exists>rep. validate_metrics metrics = Inr rep
    \<and> filter (\<lambda>w. w_type w = high_utilization) (mv_warnings rep)
        = map (\<lambda>r. \<lparr>w_type = high_utilization, w_staff = row_label (columns metrics) r,
                     w_value = utilization r\<rparr>)
            (filter (\<lambda>r. utilization r > 15 / 10) (rows metrics))
    \<and> filter (\<lambda>w. w_type w = low_performance_rate) (mv_warnings rep)
        = map (\<lambda>r. \<lparr>w_type = low_performance_rate, w_staff = row_label (columns metrics) r,
                     w_value = performance_rate r\<rparr>)
            (filter (\<lambda>r. performance_rate r < 5 / 10) (rows metrics))
    \<and> filter (\<lambda>w. w_type w = kpi_outlier) (mv_warnings rep)
        = map (\<lambda>r. \<lparr>w_type = kpi_outlier, w_staff = row_label (columns metrics) r,
                     w_value = kpi r\<rparr>)
            (filter (\<lambda>r. \<not> (3 / 10 \<le> kpi r \<and> kpi r \<le> 15 / 10)) (rows metrics))"
proof -
  have k: "(\<lambda>r::metrics_row. \<not> (3 / 10 \<le> kpi r \<and> kpi r \<le> 15 / 10))
         = (\<lambda>r. kpi r < 3 / 10 \<or> kpi r > 15 / 10)"
    by (auto simp: fun_eq_iff)
  show ?thesis
    unfolding validate_metrics_value [OF assms] k
    by (simp add: filter_map o_def)
qed

theorem anomaly_thresholds_witness:
  "\<exists>rep. validate_metrics boundary_metrics = Inr rep
    \<and> map w_staff (filter (\<lambda>w. w_type w = high_utilization) (mv_warnings rep)) = [Some ''a'']
    \<and> map w_staff (filter (\<lambda>w. w_type w = low_performance_rate) (mv_warnings rep)) = [Some ''d'']
    \<and> map w_staff (filter (\<lambda>w. w_type w = kpi_outlier) (mv_warnings rep)) = [Some ''f'', Some ''g'']"
proof -
  have c: "set [''utilization'', ''performance_rate'', ''kpi''] \<subseteq> set (columns boundary_metrics)"
    by (simp add: boundary_metrics_def staff_metrics_columns_def)
  from anomaly_thresholds [OF c] obtain rep where
    "validate_metrics boundary_metrics = Inr rep"
    and "filter (\<lambda>w. w_type w = high_utilization) (mv_warnings rep)
        = map (\<lambda>r. \<lparr>w_type = high_utilization, w_staff = row_label (columns boundary_metrics) r,
                     w_value = utilization r\<rparr>)
            (filter (\<lambda>r. utilization r > 15 / 10) (rows boundary_metrics))"
    and "filter (\<lambda>w. w_type w = low_performance_rate) (mv_warnings rep)
        = map (\<lambda>r. \<lparr>w_type = low_performance_rate, w_staff = row_label (columns boundary_metrics) r,
                     w_value = performance_rate r\<rparr>)
            (filter (\<lambda>r. performance_rate r < 5 / 10) (rows boundary_metrics))"
    and "filter (\<lambda>w. w_type w = kpi_outlier) (mv_warnings rep)
        = map (\<lambda>r. \<lparr>w_type = kpi_outlier, w_staff = row_label (columns boundary_metrics) r,
                     w_value = kpi r\<rparr>)
            (filter (\<lambda>r. \<not> (3 / 10 \<le> kpi r \<and> kpi r \<le> 15 / 10)) (rows boundary_metrics))"
    by blast
  then show ?thesis
    by (simp add: boundary_metrics_def staff_metrics_columns_def metric_row_def row_label_def)
qed

text \<open>
  C5. The claim makes the sum of \<open>total_count\<close> over the staff groups equal to the sum
  over the team groups. A task without an assignee but with a mapped activity is in no
  staff group and in one team group: the sums are 0 and 1.
\<close>

theorem aggregation_partition_counterexample:
  "process_azure_data unassigned_raw = Inr unassigned_frame
   \<and> total_count_sums unassigned_frame = Inr (0, 1)"
  by (simp add: unassigned_raw_def unassigned_frame_def normalise_defs aggregate_defs
      total_count_sums_def)

text \<open>
  C5, amended. On a frame with the columns the aggregations read, both return. The sum
  of \<open>total_count\<close> over the staff groups is the number of work items with e-mail, name
  and team all present; the sum over the team groups is the number of work items with a
  team; the first is at most the second, and they are equal when every work item with a
  team has an e-mail and a name. In every group, \<open>done_count\<close> is at most \<open>total_count\<close>.
\<close>

theorem aggregation_counts:
  assumes cols: "set ([''staff_email'', ''staff_name'', ''team''] @ agg_columns)
                   \<subseteq> set (columns df)"
  shows "\<exists>sa ta. aggregate_by_staff df = Inr sa \<and> aggregate_by_team df = Inr ta
     \<and> sum_list (map sa_total_count sa)
         = int (length (filter (\<lambda>r. staff_email r \<noteq> None \<and> staff_name r \<noteq> None
                                    \<and> team r \<noteq> None) (rows df)))
     \<and> sum_list (map ta_total_count ta)
         = int (length (filter (\<lambda>r. team r \<noteq> None) (rows df)))
     \<and> sum_list (map sa_total_count sa) \<le> sum_list (map ta_total_count ta)
     \<and> ((\<forall>r\<in>set (rows df). team r \<noteq> None \<longrightarrow> staff_email r \<noteq> None \<and> staff_name r \<noteq> None)
          \<longrightarrow> sum_list (map sa_total_count sa) = sum_list (map ta_total_count ta))
     \<and> (\<forall>g\<in>set sa. 0 \<le> sa_done_count g \<and> sa_done_count g \<le> sa_total_count g)
     \<and> (\<forall>g\<in>set ta. 0 \<le> ta_done_count g \<and> ta_done_count g \<le> ta_total_count g)"
proof -
  let ?sa = "map staff_agg_row (groupby staff_key (rows df))"
  let ?ta = "map team_agg_row (groupby team_key (rows df))"
  let ?full = "\<lambda>r. staff_email r \<noteq> None \<and> staff_name r \<noteq> None \<and> team r \<noteq> None"
  have s: "aggregate_by_staff df = Inr ?sa"
    using cols by (intro aggregate_by_staff_value) simp
  have t: "aggregate_by_team df = Inr ?ta"
    using cols by (intro aggregate_by_team_value) simp
  have le: "length (filter ?full (rows df)) \<le> length (filter (\<lambda>r. team r \<noteq> None) (rows df))"
    by (intro length_filter_mono) simp
  have eq: "length (filter ?full (rows df)) = length (filter (\<lambda>r. team r \<noteq> None) (rows df))"
    if "\<forall>r\<in>set (rows df). team r \<noteq> None \<longrightarrow> staff_email r \<noteq> None \<and> staff_name r \<noteq> None"
  proof -
    from that have "filter ?full (rows df) = filter (\<lambda>r. team r \<noteq> None) (rows df)"
      by (intro filter_cong) auto
    then show ?thesis by simp
  qed
  have ds: "\<forall>g\<in>set ?sa. 0 \<le> sa_done_count g \<and> sa_done_count g \<le> sa_total_count g"
    by auto
  have dt: "\<forall>g\<in>set ?ta. 0 \<le> ta_done_count g \<and> ta_done_count g \<le> ta_total_count g"
    by auto
  show ?thesis
    using s t le eq ds dt
    by (intro exI [of _ ?sa] exI [of _ ?ta]) (simp only: staff_total team_total, simp)
qed

theorem aggregation_counts_witness:
  "\<exists>sa ta. aggregate_by_staff two_team_frame = Inr sa
     \<and> aggregate_by_team two_team_frame = Inr ta
     \<and> sum_list (map sa_total_count sa) = 2
     \<and> sum_list (map ta_total_count ta) = 2
     \<and> (\<forall>g\<in>set sa. 0 \<le> sa_done_count g \<and> sa_done_count g \<le> sa_total_count g)
     \<and> (\<forall>g\<in>set ta. 0 \<le> ta_done_count g \<and> ta_done_count g \<le> ta_total_count g)"
proof -
  have cols: "set ([''staff_email'', ''staff_name'', ''team''] @ agg_columns)
                \<subseteq> set (columns two_team_frame)"
    by (simp add: two_team_frame_def processed_columns_def raw_columns_def agg_columns_def)
  have n: "length (filter (\<lambda>r. team r \<noteq> None) (rows two_team_frame)) = 2"
    by (simp add: two_team_frame_def)
  have a: "\<forall>r\<in>set (rows two_team_frame).
             team r \<noteq> None \<longrightarrow> staff_email r \<noteq> None \<and> staff_name r \<noteq> None"
    by (simp add: two_team_frame_def)
  from aggregation_counts [OF cols] obtain sa ta where
    r: "aggregate_by_staff two_team_frame = Inr sa" "aggregate_by_team two_team_frame = Inr ta"
    and t: "sum_list (map ta_total_count ta)
         = int (length (filter (\<lambda>r. team r \<noteq> None) (rows two_team_frame)))"
    and e: "(\<forall>r\<in>set (rows two_team_frame).
               team r \<noteq> None \<longrightarrow> staff_email r \<noteq> None \<and> staff_name r \<noteq> None)
          \<longrightarrow> sum_list (map sa_total_count sa) = sum_list (map ta_total_count ta)"
    and d: "\<forall>g\<in>set sa. 0 \<le> sa_done_count g \<and> sa_done_count g \<le> sa_total_count g"
       "\<forall>g\<in>set ta. 0 \<le> ta_done_count g \<and> ta_done_count g \<le> ta_total_count g"
    by blast
  from t n have "sum_list (map ta_total_count ta) = 2" by simp
  moreover from e a this have "sum_list (map sa_total_count sa) = 2" by simp
  ultimately show ?thesis using r d by blast
qed

text \<open>
  C6. The claim splits the combined string at its last pair of angle brackets and trims
  the name on both sides. The two regular expressions match lazily from the left: the
  name ends before the first \<open><\<close> that follows at least one character, the e-mail is
  what the first matching pair encloses, white space in front of the name stays, and a
  string with an opening bracket that is never closed has a name and no e-mail.
\<close>

theorem identity_split_counterexample:
  "extract_name (Some ''A <b> <c@d>'') = Some ''A''
   \<and> extract_email (Some ''A <b> <c@d>'') = Some ''b''
   \<and> extract_name (Some '' Bob <b@x>'') = Some '' Bob''
   \<and> extract_name (Some ''Bob <'') = Some ''Bob''
   \<and> extract_email (Some ''Bob <'') = None"
  by (simp add: extract_name_def extract_email_def search_name_def email_group_def
      newline_def is_space_def)

text \<open>
  C6, amended. A missing combined string, and one without any \<open><\<close>, give a missing
  name and a missing e-mail. A combined string made of a name without \<open><\<close> and without
  a line break that does not end in white space, then any white space, then \<open><\<close>, a
  non-empty e-mail without \<open>>\<close> and without a line break, then \<open>>\<close> and anything
  else, gives that name and that e-mail.
\<close>

theorem identity_split:
  "(assigned_to r = None
      \<longrightarrow> staff_name (process_row r) = None \<and> staff_email (process_row r) = None)
   \<and> (assigned_to r = Some s \<and> CHR ''<'' \<notin> set s
      \<longrightarrow> staff_name (process_row r) = None \<and> staff_email (process_row r) = None)
   \<and> (assigned_to r = Some (n @ w @ CHR ''<'' # e @ CHR ''>'' # rest)
        \<and> n \<noteq> [] \<and> CHR ''<'' \<notin> set n \<and> newline \<notin> set n \<and> \<not> is_space (last n)
        \<and> (\<forall>c\<in>set w. is_space c)
        \<and> e \<noteq> [] \<and> CHR ''>'' \<notin> set e \<and> newline \<notin> set e
      \<longrightarrow> staff_name (process_row r) = Some n \<and> staff_email (process_row r) = Some e)"
proof (intro conjI impI)
  assume "assigned_to r = None"
  then show "staff_name (process_row r) = None" "staff_email (process_row r) = None"
    by (simp_all add: process_row_def extract_name_def extract_email_def)
next
  assume "assigned_to r = Some s \<and> CHR ''<'' \<notin> set s"
  then show "staff_name (process_row r) = None" "staff_email (process_row r) = None"
    by (simp_all add: process_row_def extract_name_def extract_email_def
        search_name_no_lt search_email_no_lt)
next
  assume a: "assigned_to r = Some (n @ w @ CHR ''<'' # e @ CHR ''>'' # rest)
        \<and> n \<noteq> [] \<and> CHR ''<'' \<notin> set n \<and> newline \<notin> set n \<and> \<not> is_space (last n)
        \<and> (\<forall>c\<in>set w. is_space c)
        \<and> e \<noteq> [] \<and> CHR ''>'' \<notin> set e \<and> newline \<notin> set e"
  then have "search_name (n @ w @ CHR ''<'' # e @ CHR ''>'' # rest) = Some n"
    by (intro search_name_prefix) simp_all
  with a show "staff_name (process_row r) = Some n"
    by (simp add: process_row_def extract_name_def)
  from a have "CHR ''<'' \<notin> set (n @ w)"
    by (auto dest: is_space_not_lt)
  then have "search_email ((n @ w) @ CHR ''<'' # e @ CHR ''>'' # rest)
               = search_email (CHR ''<'' # e @ CHR ''>'' # rest)"
    by (rule search_email_skip)
  also from a have "\<dots> = Some e"
    by (simp add: email_group_bracket)
  finally show "staff_email (process_row r) = Some e"
    using a by (simp add: process_row_def extract_email_def)
qed

theorem identity_split_witness:
  "staff_name (process_row (raw_item (Some ''Ahmed Talaat <atalaat@youxel.com>'')
      (Some ''Development'') (Some ''Done'') 8 8 0 False False)) = Some ''Ahmed Talaat''
   \<and> staff_email (process_row (raw_item (Some ''Ahmed Talaat <atalaat@youxel.com>'')
      (Some ''Development'') (Some ''Done'') 8 8 0 False False)) = Some ''atalaat@youxel.com''
   \<and> staff_name (process_row (raw_item (Some ''Unassigned'')
      (Some ''Development'') (Some ''Done'') 8 8 0 False False)) = None
   \<and> staff_email (process_row (raw_item (Some ''Unassigned'')
      (Some ''Development'') (Some ''Done'') 8 8 0 False False)) = None
   \<and> staff_name (process_row (raw_item None
      (Some ''Development'') (Some ''Done'') 8 8 0 False False)) = None
   \<and> staff_email (process_row (raw_item None
      (Some ''Development'') (Some ''Done'') 8 8 0 False False)) = None"
proof -
  let ?a = "raw_item (Some ''Ahmed Talaat <atalaat@youxel.com>'')
      (Some ''Development'') (Some ''Done'') 8 8 0 False False"
  let ?u = "raw_item (Some ''Unassigned'') (Some ''Development'') (Some ''Done'') 8 8 0 False False"
  let ?n = "raw_item None (Some ''Development'') (Some ''Done'') 8 8 0 False False"
  have h1: "assigned_to ?a = Some (''Ahmed Talaat'' @ '' '' @ CHR ''<'' # ''atalaat@youxel.com'' @ CHR ''>'' # [])
        \<and> ''Ahmed Talaat'' \<noteq> [] \<and> CHR ''<'' \<notin> set ''Ahmed Talaat''
        \<and> newline \<notin> set ''Ahmed Talaat'' \<and> \<not> is_space (last ''Ahmed Talaat'')
        \<and> (\<forall>c\<in>set '' ''. is_space c)
        \<and> ''atalaat@youxel.com'' \<noteq> [] \<and> CHR ''>'' \<notin> set ''atalaat@youxel.com''
        \<and> newline \<notin> set ''atalaat@youxel.com''"
    by (simp add: raw_item_def newline_def is_space_def)
  have h2: "assigned_to ?u = Some ''Unassigned'' \<and> CHR ''<'' \<notin> set ''Unassigned''"
    by (simp add: raw_item_def)
  have h3: "assigned_to ?n = None"
    by (simp add: raw_item_def)
  from identity_split [of ?a _ "''Ahmed Talaat''" "'' ''" "''atalaat@youxel.com''" "[]"] h1
  have "staff_name (process_row ?a) = Some ''Ahmed Talaat''
      \<and> staff_email (process_row ?a) = Some ''atalaat@youxel.com''"
    by blast
  moreover from identity_split [of ?u "''Unassigned''"] h2
  have "staff_name (process_row ?u) = None \<and> staff_email (process_row ?u) = None"
    by blast
  moreover from identity_split [of ?n] h3
  have "staff_name (process_row ?n) = None \<and> staff_email (process_row ?n) = None"
    by blast
  ultimately show ?thesis by blast
qed

text \<open>
  C7. The staff groups are keyed by e-mail, name and team, and \<open>calculate_staff_metrics\<close>
  takes the tagged work of a group from every task with the group's e-mail, whatever its
  team. For a staff member with a mid-sprint task of 10 hours in Development and an
  untagged task of 5 hours in Testing, the Testing group has no tagged work of its own
  and 5 hours of completed work, so the claim gives it 0; the code gives it 10 / 5 = 2.
\<close>

theorem staff_midsprint_numerator_crosses_teams:
  "process_azure_data two_team_raw = Inr two_team_frame
   \<and> aggregate_by_staff two_team_frame = Inr two_team_staff_agg
   \<and> calculate_staff_metrics (SprintCalculator None) two_team_staff_agg scenario_capacity
        two_team_frame
       = Inr \<lparr>columns = staff_metrics_columns, rows = two_team_staff_metrics\<rparr>
   \<and> map midsprint_addition_pct two_team_staff_metrics = [1, 2]"
  by (simp add: two_team_raw_def two_team_frame_def two_team_staff_agg_def
      two_team_staff_metrics_def scenario_capacity_def normalise_defs aggregate_defs
      metrics_defs staff_metrics_columns_def)

text \<open>
  C8. The scenario of one staff aggregate with an original estimate of 89, 64 hours of
  completed work, 1 hour of remaining work, 10 tasks done out of 10 and a capacity of 63.
  The claim gives a performance rate of about 0.9846 and a KPI of about 0.9990.
  \<open>calculate_staff_metrics\<close> divides the original estimate by the sum of completed and
  remaining work: the performance rate and the KPI are not the claimed ones.
\<close>

theorem scenario_claimed_values_counterexample:
  "calculate_staff_metrics (SprintCalculator None) scenario_staff_agg scenario_capacity
      scenario_azure
     = Inr \<lparr>columns = staff_metrics_columns, rows = [scenario_row]\<rparr>
   \<and> \<not> approx4 (performance_rate scenario_row) (9846 / 10000)
   \<and> \<not> approx4 (kpi scenario_row) (9990 / 10000)"
  by (simp add: calculate_staff_metrics_def scenario_staff_agg_def scenario_capacity_def
      scenario_azure_def staff_metrics_row_def staff_capacity_def require_column_def
      tagged_work_def ratio_values calculate_kpi_def SprintCalculator_def
      default_kpi_weights_def DataFrame_def scenario_row_def approx4_def)

text \<open>
  C8, amended. In that scenario the performance rate is 89 / (64 + 1), about 1.3692, the
  utilization is 64 / 63, about 1.0159, the share of done tasks is 1, and the KPI is
  the sum of the three weighted by 0.2, 0.1 and 0.7, about 1.0754.
\<close>

theorem scenario_values:
  "calculate_staff_metrics (SprintCalculator None) scenario_staff_agg scenario_capacity
      scenario_azure
     = Inr \<lparr>columns = staff_metrics_columns, rows = [scenario_row]\<rparr>
   \<and> performance_rate scenario_row = 89 / (64 + 1)
   \<and> approx4 (performance_rate scenario_row) (13692 / 10000)
   \<and> utilization scenario_row = 64 / 63
   \<and> approx4 (utilization scenario_row) (10159 / 10000)
   \<and> done_tasks_pct scenario_row = 1
   \<and> kpi scenario_row
       = 2 / 10 * performance_rate scenario_row + 1 / 10 * utilization scenario_row
         + 7 / 10 * done_tasks_pct scenario_row
   \<and> approx4 (kpi scenario_row) (10754 / 10000)"
  by (simp add: calculate_staff_metrics_def scenario_staff_agg_def scenario_capacity_def
      scenario_azure_def staff_metrics_row_def staff_capacity_def require_column_def
      tagged_work_def ratio_values calculate_kpi_def SprintCalculator_def
      default_kpi_weights_def DataFrame_def scenario_row_def approx4_def)

text \<open>
  C9. The claim lets validation of an empty input end with the status \<open>warning\<close> or
  \<open>error\<close> and never raise. On the processed frame of no work item, with every column
  in place, \<open>validate_data\<close> returns \<open>success\<close>; on a frame without the column
  \<open>Assigned To\<close> it records the error and then raises on reading that column.
\<close>

theorem empty_input_counterexample:
  "process_azure_data \<lparr>columns = raw_columns, rows = []\<rparr> = Inr empty_frame
   \<and> validate_data empty_frame = Inr \<lparr>status = Success, errors = [], warnings = []\<rparr>
   \<and> validate_data \<lparr>columns = [], rows = []\<rparr> = Inl (KeyError ''Assigned To'')"
  by (simp add: empty_frame_def normalise_defs validate_data_def required_cols_def
      require_column_def Let_def)

text \<open>
  C9, amended. For a frame of zero work items: when it has the columns the checks of
  \<open>validate_data\<close> read, the report has no warning, and its status is \<open>error\<close> with the
  missing columns recorded when a required column is missing and \<open>success\<close> when none
  is; when it has the columns the aggregations read, both aggregations are empty; and
  the metric tables of empty aggregates are empty, whatever the other arguments.
\<close>

theorem empty_input:
  assumes "rows df = []"
  shows "(set [''Assigned To'', ''team'', ''Completed Work'', ''is_done''] \<subseteq> set (columns df)
          \<longrightarrow> validate_data df =
                Inr \<lparr>status = (if set required_cols \<subseteq> set (columns df) then Success else Error),
                     errors = (if set required_cols \<subseteq> set (columns df) then []
                               else [missing_columns
                                       (filter (\<lambda>c. c \<notin> set (columns df)) required_cols)]),
                     warnings = []\<rparr>)
       \<and> (set ([''staff_email'', ''staff_name'', ''team''] @ agg_columns) \<subseteq> set (columns df)
          \<longrightarrow> aggregate_by_staff df = Inr [] \<and> aggregate_by_team df = Inr [])
       \<and> calculate_staff_metrics self [] capacity_data azure_data
           = Inr \<lparr>columns = [], rows = []\<rparr>
       \<and> calculate_team_metrics self [] capacity_data azure_data
           = Inr \<lparr>columns = [], rows = []\<rparr>"
proof -
  have m: "filter (\<lambda>c. c \<notin> set (columns df)) required_cols = []
             \<longleftrightarrow> set required_cols \<subseteq> set (columns df)"
    by (auto simp: filter_empty_conv)
  have "set [''Assigned To'', ''team'', ''Completed Work'', ''is_done''] \<subseteq> set (columns df)
          \<Longrightarrow> validate_data df =
                Inr \<lparr>status = (if set required_cols \<subseteq> set (columns df) then Success else Error),
                     errors = (if set required_cols \<subseteq> set (columns df) then []
                               else [missing_columns
                                       (filter (\<lambda>c. c \<notin> set (columns df)) required_cols)]),
                     warnings = []\<rparr>"
    using assms by (auto simp: validate_data_def Let_def m)
  moreover have "set ([''staff_email'', ''staff_name'', ''team''] @ agg_columns) \<subseteq> set (columns df)
          \<Longrightarrow> aggregate_by_staff df = Inr [] \<and> aggregate_by_team df = Inr []"
    using assms
    by (simp add: aggregate_by_staff_def aggregate_by_team_def agg_columns_def groupby_def
        List.map_filter_def)
  moreover have "calculate_staff_metrics self [] capacity_data azure_data
           = Inr \<lparr>columns = [], rows = []\<rparr>"
    by (simp add: calculate_staff_metrics_def DataFrame_def)
  moreover have "calculate_team_metrics self [] capacity_data azure_data
           = Inr \<lparr>columns = [], rows = []\<rparr>"
    by (simp add: calculate_team_metrics_def DataFrame_def)
  ultimately show ?thesis by blast
qed

theorem empty_input_witness:
  "validate_data untitled_empty_frame
     = Inr \<lparr>status = Error, errors = [missing_columns [''Work Item Type'', ''Title'']],
            warnings = []\<rparr>
   \<and> aggregate_by_staff untitled_empty_frame = Inr []
   \<and> aggregate_by_team untitled_empty_frame = Inr []
   \<and> calculate_staff_metrics (SprintCalculator None) [] scenario_capacity untitled_empty_frame
       = Inr \<lparr>columns = [], rows = []\<rparr>
   \<and> calculate_team_metrics (SprintCalculator None) [] scenario_capacity untitled_empty_frame
       = Inr \<lparr>columns = [], rows = []\<rparr>"
proof -
  have e: "rows untitled_empty_frame = []"
    by (simp add: untitled_empty_frame_def)
  have c1: "set [''Assigned To'', ''team'', ''Completed Work'', ''is_done'']
              \<subseteq> set (columns untitled_empty_frame)"
    by (simp add: untitled_empty_frame_def)
  have c2: "set ([''staff_email'', ''staff_name'', ''team''] @ agg_columns)
              \<subseteq> set (columns untitled_empty_frame)"
    by (simp add: untitled_empty_frame_def agg_columns_def)
  have r: "\<not> set required_cols \<subseteq> set (columns untitled_empty_frame)"
    and f: "filter (\<lambda>c. c \<notin> set (columns untitled_empty_frame)) required_cols
              = [''Work Item Type'', ''Title'']"
    by (simp_all add: untitled_empty_frame_def required_cols_def)
  from empty_input [OF e, of "SprintCalculator None" scenario_capacity untitled_empty_frame]
    c1 c2 r f
  show ?thesis by simp
qed

text \<open>
  C10. The claim ends by dropping every work item with an unresolvable identity or an
  unmapped activity from all aggregates. Of three work items, one complete, one without
  an assignee and one with an unmapped activity, the staff aggregation keeps the first
  only; the team aggregation keeps the first and also the second, in the team of its
  activity, and drops the third.
\<close>

theorem dropped_from_all_aggregates_counterexample:
  "staff_email unassigned_item = None \<and> staff_name unassigned_item = None
   \<and> team unassigned_item = Some ''Development''
   \<and> aggregate_by_staff mixed_frame
       = Inr [\<lparr>sa_staff_email = ''madel@youxel.com'', sa_staff_name = ''Mona Adel'',
               sa_team = ''Design'', sa_original_estimate_total = 6,
               sa_completed_work_total = 6, sa_remaining_work_total = 0,
               sa_done_count = 1, sa_total_count = 1, sa_midsprint_count = 0,
               sa_adhoc_count = 0\<rparr>]
   \<and> aggregate_by_team mixed_frame
       = Inr [\<lparr>ta_team = ''Design'', ta_original_estimate_total = 6,
               ta_completed_work_total = 6, ta_remaining_work_total = 0,
               ta_done_count = 1, ta_total_count = 1, ta_midsprint_count = 0,
               ta_adhoc_count = 0\<rparr>,
              \<lparr>ta_team = ''Development'', ta_original_estimate_total = 8,
               ta_completed_work_total = 8, ta_remaining_work_total = 0,
               ta_done_count = 1, ta_total_count = 1, ta_midsprint_count = 0,
               ta_adhoc_count = 0\<rparr>]"
  by (simp add: mixed_frame_def assigned_item_def unassigned_item_def unmapped_item_def
      processed_columns_def raw_columns_def aggregate_defs)

text \<open>
  C10, amended. On a frame with the columns the aggregations read, a work item is in a
  staff group exactly when its e-mail, its name and its team are all present, and in a
  team group exactly when its team is present; the same holds for the aggregate rows,
  through their keys. The count of every aggregate is the number of work items with
  exactly its key, so a work item with an absent component of a key is counted in no
  group of that aggregation, and no group stands for an absent key.
\<close>

theorem group_membership:
  assumes cols: "set ([''staff_email'', ''staff_name'', ''team''] @ agg_columns)
                   \<subseteq> set (columns df)"
    and r: "r \<in> set (rows df)"
  shows "\<exists>sa ta. aggregate_by_staff df = Inr sa \<and> aggregate_by_team df = Inr ta
     \<and> ((\<exists>g\<in>set (groupby staff_key (rows df)). r \<in> set (snd g))
          \<longleftrightarrow> staff_email r \<noteq> None \<and> staff_name r \<noteq> None \<and> team r \<noteq> None)
     \<and> ((\<exists>g\<in>set (groupby team_key (rows df)). r \<in> set (snd g)) \<longleftrightarrow> team r \<noteq> None)
     \<and> ((\<exists>g\<in>set sa. staff_email r = Some (sa_staff_email g)
                     \<and> staff_name r = Some (sa_staff_name g) \<and> team r = Some (sa_team g))
          \<longleftrightarrow> staff_email r \<noteq> None \<and> staff_name r \<noteq> None \<and> team r \<noteq> None)
     \<and> ((\<exists>g\<in>set ta. team r = Some (ta_team g)) \<longleftrightarrow> team r \<noteq> None)
     \<and> (\<forall>g\<in>set sa. sa_total_count g
           = int (length (filter (\<lambda>x. staff_email x = Some (sa_staff_email g)
                                     \<and> staff_name x = Some (sa_staff_name g)
                                     \<and> team x = Some (sa_team g)) (rows df))))
     \<and> (\<forall>g\<in>set ta. ta_total_count g
           = int (length (filter (\<lambda>x. team x = Some (ta_team g)) (rows df))))"
proof -
  let ?sa = "map staff_agg_row (groupby staff_key (rows df))"
  let ?ta = "map team_agg_row (groupby team_key (rows df))"
  have s: "aggregate_by_staff df = Inr ?sa"
    using cols by (intro aggregate_by_staff_value) simp
  have t: "aggregate_by_team df = Inr ?ta"
    using cols by (intro aggregate_by_team_value) simp
  have m1: "(\<exists>g\<in>set (groupby staff_key (rows df)). r \<in> set (snd g))
          \<longleftrightarrow> staff_email r \<noteq> None \<and> staff_name r \<noteq> None \<and> team r \<noteq> None"
    using r by (auto simp: set_groupby staff_key_eq_Some)
  have m2: "(\<exists>g\<in>set (groupby team_key (rows df)). r \<in> set (snd g)) \<longleftrightarrow> team r \<noteq> None"
    using r by (auto simp: set_groupby team_key_def)
  have m3: "(\<exists>g\<in>set ?sa. staff_email r = Some (sa_staff_email g)
                     \<and> staff_name r = Some (sa_staff_name g) \<and> team r = Some (sa_team g))
          \<longleftrightarrow> staff_email r \<noteq> None \<and> staff_name r \<noteq> None \<and> team r \<noteq> None"
  proof
    assume "\<exists>g\<in>set ?sa. staff_email r = Some (sa_staff_email g)
                     \<and> staff_name r = Some (sa_staff_name g) \<and> team r = Some (sa_team g)"
    then show "staff_email r \<noteq> None \<and> staff_name r \<noteq> None \<and> team r \<noteq> None" by auto
  next
    assume "staff_email r \<noteq> None \<and> staff_name r \<noteq> None \<and> team r \<noteq> None"
    then obtain e n t where k: "staff_key r = Some (e, n, t)"
      by (auto simp: staff_key_eq_Some)
    with r have "((e, n, t), filter (\<lambda>x. staff_key x = Some (e, n, t)) (rows df))
                   \<in> set (groupby staff_key (rows df))"
      by (auto simp: set_groupby)
    then have "staff_agg_row ((e, n, t), filter (\<lambda>x. staff_key x = Some (e, n, t)) (rows df))
                 \<in> set ?sa"
      by simp
    moreover from k have "staff_email r = Some e" "staff_name r = Some n" "team r = Some t"
      by (simp_all add: staff_key_eq_Some)
    ultimately show "\<exists>g\<in>set ?sa. staff_email r = Some (sa_staff_email g)
                     \<and> staff_name r = Some (sa_staff_name g) \<and> team r = Some (sa_team g)"
      by (intro bexI [of _ "staff_agg_row ((e, n, t),
            filter (\<lambda>x. staff_key x = Some (e, n, t)) (rows df))"]) simp_all
  qed
  have m4: "(\<exists>g\<in>set ?ta. team r = Some (ta_team g)) \<longleftrightarrow> team r \<noteq> None"
    using r by (auto simp: set_groupby team_key_def image_iff)
  have c1: "\<forall>g\<in>set ?sa. sa_total_count g
           = int (length (filter (\<lambda>x. staff_email x = Some (sa_staff_email g)
                                     \<and> staff_name x = Some (sa_staff_name g)
                                     \<and> team x = Some (sa_team g)) (rows df)))"
    by (auto simp: set_groupby staff_key_eq_Some)
  have c2: "\<forall>g\<in>set ?ta. ta_total_count g
           = int (length (filter (\<lambda>x. team x = Some (ta_team g)) (rows df)))"
    by (auto simp: set_groupby team_key_def)
  from s t m1 m2 m3 m4 c1 c2 show ?thesis
    by (intro exI [of _ ?sa] exI [of _ ?ta]) (simp only: simp_thms)
qed

theorem group_membership_witness:
  "\<not> (\<exists>g\<in>set (groupby staff_key (rows mixed_frame)). unassigned_item \<in> set (snd g))
   \<and> (\<exists>g\<in>set (groupby team_key (rows mixed_frame)). unassigned_item \<in> set (snd g))
   \<and> \<not> (\<exists>g\<in>set (groupby staff_key (rows mixed_frame)). unmapped_item \<in> set (snd g))
   \<and> \<not> (\<exists>g\<in>set (groupby team_key (rows mixed_frame)). unmapped_item \<in> set (snd g))
   \<and> (\<exists>g\<in>set (groupby staff_key (rows mixed_frame)). assigned_item \<in> set (snd g))
   \<and> (\<exists>g\<in>set (groupby team_key (rows mixed_frame)). assigned_item \<in> set (snd g))"
proof -
  have cols: "set ([''staff_email'', ''staff_name'', ''team''] @ agg_columns)
                \<subseteq> set (columns mixed_frame)"
    by (simp add: mixed_frame_def processed_columns_def raw_columns_def agg_columns_def)
  have r: "assigned_item \<in> set (rows mixed_frame)" "unassigned_item \<in> set (rows mixed_frame)"
    "unmapped_item \<in> set (rows mixed_frame)"
    by (simp_all add: mixed_frame_def)
  have f: "staff_email assigned_item \<noteq> None" "staff_name assigned_item \<noteq> None"
    "team assigned_item \<noteq> None" "staff_email unassigned_item = None"
    "team unassigned_item \<noteq> None" "team unmapped_item = None"
    by (simp_all add: assigned_item_def unassigned_item_def unmapped_item_def)
  from group_membership [OF cols r(1)] f
  have "(\<exists>g\<in>set (groupby staff_key (rows mixed_frame)). assigned_item \<in> set (snd g))
      \<and> (\<exists>g\<in>set (groupby team_key (rows mixed_frame)). assigned_item \<in> set (snd g))"
    by blast
  moreover from group_membership [OF cols r(2)] f
  have "\<not> (\<exists>g\<in>set (groupby staff_key (rows mixed_frame)). unassigned_item \<in> set (snd g))
      \<and> (\<exists>g\<in>set (groupby team_key (rows mixed_frame)). unassigned_item \<in> set (snd g))"
    by blast
  moreover from group_membership [OF cols r(3)] f
  have "\<not> (\<exists>g\<in>set (groupby staff_key (rows mixed_frame)). unmapped_item \<in> set (snd g))
      \<and> \<not> (\<exists>g\<in>set (groupby team_key (rows mixed_frame)). unmapped_item \<in> set (snd g))"
    by blast
  ultimately show ?thesis by blast
qed

end
